theory Spec2Isabelle
  imports Main
begin

section \<open>Configuration\<close>

text \<open>
  The three settings of \<^verbatim>\<open>config\<close> (src/config.ts) that the request pipeline reads.
  \<^verbatim>\<open>SEMRUSH_API_KEY\<close> is optional (\<^verbatim>\<open>string | undefined\<close>); the two numeric settings come
  from \<^verbatim>\<open>parseInt\<close> and are modelled as integers.
\<close>

record Config =
  SEMRUSH_API_KEY :: "string option"
  API_CACHE_TTL_SECONDS :: int
  API_RATE_LIMIT_PER_SECOND :: int

definition SEMRUSH_API_BASE_URL :: string where
  "SEMRUSH_API_BASE_URL = ''https://api.semrush.com/''"

definition TRENDS_API_BASE_URL :: string where
  "TRENDS_API_BASE_URL = ''https://api.semrush.com/analytics/ta/''"

section \<open>Rate limiter\<close>

text \<open>
  \<^verbatim>\<open>class RateLimiter\<close> (semrush-api.ts, lines 13-51). Time stamps are the millisecond
  readings of \<^verbatim>\<open>Date.now()\<close>; every reading is an explicit argument. A constructor may
  throw, so its result is a sum; this one has no \<^verbatim>\<open>throw\<close> and always yields \<open>Inr\<close>.
  The default parameter \<^verbatim>\<open>rateLimit = config.API_RATE_LIMIT_PER_SECOND\<close> applies when the
  argument is omitted (\<open>None\<close>).
\<close>

record RateLimiter =
  requestTimestamps :: "int list"
  rateLimit :: int

definition RateLimiter_new :: "Config \<Rightarrow> int option \<Rightarrow> string + RateLimiter" where
  "RateLimiter_new config arg =
     Inr \<lparr>requestTimestamps = [],
          rateLimit = (case arg of None \<Rightarrow> API_RATE_LIMIT_PER_SECOND config | Some n \<Rightarrow> n)\<rparr>"

text \<open>\<^verbatim>\<open>canMakeRequest\<close> prunes the stored time stamps (a mutation) and answers.\<close>

definition canMakeRequest :: "int \<Rightarrow> RateLimiter \<Rightarrow> bool \<times> RateLimiter" where
  "canMakeRequest now rl =
     (let oneSecondAgo = now - 1000;
          rl' = rl\<lparr>requestTimestamps :=
                     filter (\<lambda>timestamp. timestamp > oneSecondAgo) (requestTimestamps rl)\<rparr>
      in (int (length (requestTimestamps rl')) < rateLimit rl', rl'))"

definition recordRequest :: "int \<Rightarrow> RateLimiter \<Rightarrow> RateLimiter" where
  "recordRequest now rl = rl\<lparr>requestTimestamps := requestTimestamps rl @ [now]\<rparr>"

text \<open>
  One run of the closure \<^verbatim>\<open>checkRateLimit\<close> inside \<^verbatim>\<open>waitForRateLimit\<close>. It reads the clock
  in \<^verbatim>\<open>canMakeRequest\<close> and, when the slot is granted, once more in \<^verbatim>\<open>recordRequest\<close>: the
  pair \<open>(t1, t2)\<close> holds the two readings. The result says whether the promise was resolved;
  otherwise the closure has re-armed itself with \<^verbatim>\<open>setTimeout(checkRateLimit, 100)\<close>.
\<close>

definition checkRateLimit :: "int \<times> int \<Rightarrow> RateLimiter \<Rightarrow> bool \<times> RateLimiter" where
  "checkRateLimit p rl =
     (case canMakeRequest (fst p) rl of
        (True, rl') \<Rightarrow> (True, recordRequest (snd p) rl')
      | (False, rl') \<Rightarrow> (False, rl'))"

text \<open>
  \<^verbatim>\<open>waitForRateLimit\<close> for one caller. The polling loop may go on for ever, so the model is
  driven by the list of clock readings of its successive polls; \<open>None\<close> means that the
  promise is still pending when the list is used up. The promise has no reject path.
\<close>

fun waitForRateLimit :: "(int \<times> int) list \<Rightarrow> RateLimiter \<Rightarrow> RateLimiter option" where
  "waitForRateLimit [] rl = None"
| "waitForRateLimit (p # ps) rl =
     (case checkRateLimit p rl of
        (True, rl') \<Rightarrow> Some rl'
      | (False, rl') \<Rightarrow> waitForRateLimit ps rl')"

text \<open>
  The polls of an undisturbed caller whose timers fire exactly on time: the first at \<open>start\<close>,
  the next ones 100 ms apart.
\<close>

definition poll_times :: "int \<Rightarrow> nat \<Rightarrow> (int \<times> int) list" where
  "poll_times start n = map (\<lambda>k. (start + 100 * int k, start + 100 * int k)) [0..<n]"

text \<open>
  Several callers may wait at once. JavaScript runs each poll to completion, so whatever the
  interleaving the limiter sees one sequence of polls. \<open>admitted\<close> is the log of the time
  stamps recorded along such a sequence, \<open>readings\<close> the clock readings in the order taken,
  and \<open>in_window t\<close> the test for the 1000 ms window that starts at \<open>t\<close>.
\<close>

fun admitted :: "(int \<times> int) list \<Rightarrow> RateLimiter \<Rightarrow> int list" where
  "admitted [] rl = []"
| "admitted (p # ps) rl =
     (case checkRateLimit p rl of
        (True, rl') \<Rightarrow> snd p # admitted ps rl'
      | (False, rl') \<Rightarrow> admitted ps rl')"

definition readings :: "(int \<times> int) list \<Rightarrow> int list" where
  "readings ps = concat (map (\<lambda>p. [fst p, snd p]) ps)"

definition in_window :: "int \<Rightarrow> int \<Rightarrow> bool" where
  "in_window t ts = (t \<le> ts \<and> ts < t + 1000)"

section \<open>Values\<close>

text \<open>
  A query parameter is \<^verbatim>\<open>string | number | boolean | undefined\<close> (\<^verbatim>\<open>ApiQueryParams\<close>); the
  numbers the operations pass are display limits, modelled as integers. An object literal
  keeps its properties in insertion order, which \<^verbatim>\<open>JSON.stringify\<close> follows, so a parameter
  set is an association list. A response body is whatever the HTTP client parsed: a JSON
  value (an object has each key once), or the raw text as a string.
\<close>

datatype param_value = PStr string | PNum int | PBool bool | PUndefined

type_synonym ApiQueryParams = "(string \<times> param_value) list"

datatype json =
  JNull | JBool bool | JNum int | JStr string | JArr "json list" | JObj "(string \<times> json) list"

text \<open>Assignment \<^verbatim>\<open>obj[k] = v\<close>: an existing property keeps its place, a new one goes last.\<close>

fun set_prop :: "string \<Rightarrow> 'v \<Rightarrow> (string \<times> 'v) list \<Rightarrow> (string \<times> 'v) list" where
  "set_prop k v [] = [(k, v)]"
| "set_prop k v ((k', v') # kvs) =
     (if k' = k then (k, v) # kvs else (k', v') # set_prop k v kvs)"

text \<open>\<^verbatim>\<open>Array.prototype.join\<close> on an array of strings.\<close>

fun join :: "string \<Rightarrow> string list \<Rightarrow> string" where
  "join sep [] = []"
| "join sep [x] = x"
| "join sep (x # y # ys) = x @ sep @ join sep (y # ys)"

text \<open>Decimal rendering of an integer, as \<^verbatim>\<open>String(n)\<close> and \<^verbatim>\<open>JSON.stringify(n)\<close> give it.\<close>

fun show_nat :: "nat \<Rightarrow> string" where
  "show_nat n =
     (if n < 10 then [''0123456789'' ! n]
      else show_nat (n div 10) @ [''0123456789'' ! (n mod 10)])"

declare show_nat.simps [simp del]

definition show_int :: "int \<Rightarrow> string" where
  "show_int i = (if i < 0 then ''-'' @ show_nat (nat (- i)) else show_nat (nat i))"

text \<open>
  \<^verbatim>\<open>JSON.stringify\<close> on a flat parameter object. A string is quoted with the escapes of the
  language standard (quote, backslash, the short escapes, \<^verbatim>\<open>\u00XX\<close> for the other control
  characters); a property whose value is \<^verbatim>\<open>undefined\<close> is left out. Characters are bytes
  here, so the model is exact on ASCII text.
\<close>

definition json_escape :: "char \<Rightarrow> string" where
  "json_escape c =
     (if c = CHR 0x22 then [CHR 0x5C, CHR 0x22]
      else if c = CHR 0x5C then [CHR 0x5C, CHR 0x5C]
      else if c = CHR 0x08 then [CHR 0x5C, CHR ''b'']
      else if c = CHR 0x09 then [CHR 0x5C, CHR ''t'']
      else if c = CHR 0x0A then [CHR 0x5C, CHR ''n'']
      else if c = CHR 0x0C then [CHR 0x5C, CHR ''f'']
      else if c = CHR 0x0D then [CHR 0x5C, CHR ''r'']
      else if (of_char c :: nat) < 32 then
        [CHR 0x5C, CHR ''u'', CHR ''0'', CHR ''0'',
         ''0123456789abcdef'' ! ((of_char c :: nat) div 16),
         ''0123456789abcdef'' ! ((of_char c :: nat) mod 16)]
      else [c])"

definition json_quote :: "string \<Rightarrow> string" where
  "json_quote s = [CHR 0x22] @ concat (map json_escape s) @ [CHR 0x22]"

fun stringify_value :: "param_value \<Rightarrow> string option" where
  "stringify_value (PStr s) = Some (json_quote s)"
| "stringify_value (PNum n) = Some (show_int n)"
| "stringify_value (PBool b) = Some (if b then ''true'' else ''false'')"
| "stringify_value PUndefined = None"

fun stringify_props :: "ApiQueryParams \<Rightarrow> string list" where
  "stringify_props [] = []"
| "stringify_props ((k, v) # kvs) =
     (case stringify_value v of
        None \<Rightarrow> stringify_props kvs
      | Some s \<Rightarrow> (json_quote k @ '':'' @ s) # stringify_props kvs)"

definition JSON_stringify :: "ApiQueryParams \<Rightarrow> string" where
  "JSON_stringify obj = ''{'' @ join '','' (stringify_props obj) @ ''}''"

text \<open>
  What the error path reads from a body of type \<^verbatim>\<open>any\<close>. \<open>get_prop\<close> is the optional
  chaining \<^verbatim>\<open>v?.name\<close> for the two names used, \<^verbatim>\<open>error\<close> and \<^verbatim>\<open>message\<close>: \<^verbatim>\<open>undefined\<close>
  (\<open>None\<close>) on \<^verbatim>\<open>undefined\<close> and \<^verbatim>\<open>null\<close>, the property on an object, and \<^verbatim>\<open>undefined\<close> on
  every other value, which has no property of either name. \<open>truthy\<close> is the test made by
  \<^verbatim>\<open>||\<close>, and \<open>js_toString\<close> the conversion that the \<^verbatim>\<open>Error\<close> constructor applies to its
  message.
\<close>

fun get_prop :: "json option \<Rightarrow> string \<Rightarrow> json option" where
  "get_prop (Some (JObj kvs)) name = map_of kvs name"
| "get_prop _ name = None"

fun truthy :: "json \<Rightarrow> bool" where
  "truthy JNull = False"
| "truthy (JBool b) = b"
| "truthy (JNum n) = (n \<noteq> 0)"
| "truthy (JStr s) = (s \<noteq> [])"
| "truthy (JArr xs) = True"
| "truthy (JObj kvs) = True"

fun js_toString :: "json \<Rightarrow> string" where
  "js_toString JNull = ''null''"
| "js_toString (JBool b) = (if b then ''true'' else ''false'')"
| "js_toString (JNum n) = show_int n"
| "js_toString (JStr s) = s"
| "js_toString (JArr xs) =
     join '','' (map (\<lambda>x. if x = JNull then [] else js_toString x) xs)"
| "js_toString (JObj kvs) = ''[object Object]''"

section \<open>The HTTP client and the cache\<close>

text \<open>
  \<^verbatim>\<open>axios\<close> and \<^verbatim>\<open>node-cache\<close> are imported packages. The HTTP client is a parameter of
  the model: a function from the request configuration to one of the three ways the awaited
  call can end, which are the three paths of \<^verbatim>\<open>makeRequest\<close> after the call. An
  \<^verbatim>\<open>AxiosError\<close> carries its own message and, when the server answered, the response.
\<close>

record AxiosResponse =
  r_data :: json
  r_status :: int
  r_headers :: "(string \<times> string) list"

record AxiosRequestConfig =
  http_method :: string
  url :: string
  params :: ApiQueryParams

datatype AxiosOutcome =
    Resolved AxiosResponse
  | RejectedAxiosError "AxiosResponse option" string
  | RejectedOther string

text \<open>
  The caller's \<^verbatim>\<open>options\<close>, spread last into the request configuration, where each
  property present replaces the one \<^verbatim>\<open>makeRequest\<close> has set. The three properties that
  \<^verbatim>\<open>makeRequest\<close> sets are modelled; any other option only changes how the HTTP client
  behaves, which is a parameter already. Every operation of the class leaves the argument
  out, which is \<open>no_options\<close>.
\<close>

record AxiosOptions =
  opt_method :: "string option"
  opt_url :: "string option"
  opt_params :: "ApiQueryParams option"

definition no_options :: AxiosOptions where
  "no_options = \<lparr>opt_method = None, opt_url = None, opt_params = None\<rparr>"

definition spread_options :: "AxiosRequestConfig \<Rightarrow> AxiosOptions \<Rightarrow> AxiosRequestConfig" where
  "spread_options cfg options =
     \<lparr>http_method = (case opt_method options of None \<Rightarrow> http_method cfg | Some m \<Rightarrow> m),
      url = (case opt_url options of None \<Rightarrow> url cfg | Some u \<Rightarrow> u),
      params = (case opt_params options of None \<Rightarrow> params cfg | Some p \<Rightarrow> p)\<rparr>"

text \<open>
  The library's default status check, for reading a server's answer as an outcome: without
  a \<^verbatim>\<open>validateStatus\<close> option the call resolves on a status from 200 to 299 and rejects
  on any other with an \<^verbatim>\<open>AxiosError\<close> that carries the response; when no answer comes
  the error carries none.
\<close>

datatype Upstream = HttpReply AxiosResponse | NoReply string

definition axios_default :: "Upstream \<Rightarrow> AxiosOutcome" where
  "axios_default u =
     (case u of
        HttpReply r \<Rightarrow>
          (if 200 \<le> r_status r \<and> r_status r < 300 then Resolved r
           else RejectedAxiosError (Some r)
                  (''Request failed with status code '' @ show_int (r_status r)))
      | NoReply msg \<Rightarrow> RejectedAxiosError None msg)"

record SemrushApiResponse =
  data :: json
  status :: int
  headers :: "(string \<times> string) list"

record SemrushApiError =
  message :: string
  e_status :: int
  response :: "json option"

text \<open>
  The cache \<^verbatim>\<open>new NodeCache({ stdTTL })\<close>: an entry is stored with the time it expires,
  \<open>0\<close> for never (a \<^verbatim>\<open>stdTTL\<close> of 0), else the time of storing plus \<^verbatim>\<open>stdTTL\<close> seconds;
  \<^verbatim>\<open>get\<close> answers \<^verbatim>\<open>undefined\<close> for a key that is absent or whose entry has expired.
\<close>

record NodeCache =
  stdTTL :: int
  entries :: "string \<rightharpoonup> (SemrushApiResponse \<times> int)"

definition NodeCache_new :: "int \<Rightarrow> NodeCache" where
  "NodeCache_new ttl = \<lparr>stdTTL = ttl, entries = Map.empty\<rparr>"

definition cache_get :: "int \<Rightarrow> NodeCache \<Rightarrow> string \<Rightarrow> SemrushApiResponse option" where
  "cache_get now c k =
     (case entries c k of
        None \<Rightarrow> None
      | Some (v, t) \<Rightarrow> if t \<noteq> 0 \<and> t < now then None else Some v)"

definition cache_set :: "int \<Rightarrow> string \<Rightarrow> SemrushApiResponse \<Rightarrow> NodeCache \<Rightarrow> NodeCache" where
  "cache_set now k v c =
     c\<lparr>entries := (entries c)(k \<mapsto> (v, if stdTTL c = 0 then 0 else now + stdTTL c * 1000))\<rparr>"

section \<open>The request client\<close>

text \<open>
  The module's state: the shared cache, the shared rate limiter, and \<open>sent\<close>, the log of
  the requests handed to the HTTP client, kept so that theorems can speak about network
  activity. \<open>Env\<close> is what one call of \<^verbatim>\<open>makeRequest\<close> meets: the HTTP client's behaviour and
  the clock readings.
\<close>

record World =
  apiCache :: NodeCache
  rateLimiter :: RateLimiter
  sent :: "AxiosRequestConfig list"

record Env =
  axios :: "AxiosRequestConfig \<Rightarrow> AxiosOutcome"
  clock_get :: int
  polls :: "(int \<times> int) list"
  clock_set :: int

record SemrushApiClient =
  apiKey :: string

text \<open>
  The constructor (lines 84-89). \<^verbatim>\<open>!apiKey\<close> holds for \<^verbatim>\<open>undefined\<close> and for the empty
  string.
\<close>

definition SemrushApiClient_new :: "Config \<Rightarrow> string option \<Rightarrow> string + SemrushApiClient" where
  "SemrushApiClient_new config arg =
     (let apiKey = (case arg of None \<Rightarrow> SEMRUSH_API_KEY config | Some k \<Rightarrow> Some k) in
      case apiKey of
        None \<Rightarrow> Inl ''Semrush API key is required''
      | Some k \<Rightarrow> if k = [] then Inl ''Semrush API key is required''
                  else Inr \<lparr>apiKey = k\<rparr>)"

text \<open>
  What loading the module sets up (lines 10, 53 and 397): the cache with the configured
  life time, the rate limiter and the exported client, both built from the configuration,
  and nothing sent yet. A constructor that throws makes the load fail.
\<close>

definition load_module :: "Config \<Rightarrow> string + (SemrushApiClient \<times> World)" where
  "load_module config =
     (case RateLimiter_new config None of
        Inl e \<Rightarrow> Inl e
      | Inr rl \<Rightarrow>
         (case SemrushApiClient_new config None of
            Inl e \<Rightarrow> Inl e
          | Inr semrushApi \<Rightarrow>
              Inr (semrushApi,
                   \<lparr>apiCache = NodeCache_new (API_CACHE_TTL_SECONDS config),
                    rateLimiter = rl, sent = []\<rparr>)))"

definition with_key :: "SemrushApiClient \<Rightarrow> ApiQueryParams \<Rightarrow> ApiQueryParams" where
  "with_key this ps = set_prop ''key'' (PStr (apiKey this)) ps"

definition cache_key :: "SemrushApiClient \<Rightarrow> string \<Rightarrow> ApiQueryParams \<Rightarrow> string" where
  "cache_key this u ps = u @ '':'' @ JSON_stringify (with_key this ps)"

text \<open>The \<^verbatim>\<open>catch\<close> block of \<^verbatim>\<open>makeRequest\<close> (lines 136-147).\<close>

definition error_of :: "AxiosResponse option \<Rightarrow> string \<Rightarrow> SemrushApiError" where
  "error_of resp msg =
     (let st = (case resp of None \<Rightarrow> 500 | Some r \<Rightarrow> if r_status r = 0 then 500 else r_status r);
          m = (case get_prop (get_prop (map_option r_data resp) ''error'') ''message'' of
                 None \<Rightarrow> msg
               | Some v \<Rightarrow> if truthy v then js_toString v else msg)
      in \<lparr>message = m, e_status = st, response = map_option r_data resp\<rparr>)"

text \<open>
  \<^verbatim>\<open>makeRequest\<close> (lines 92-148). \<open>None\<close>: the call is still suspended in
  \<^verbatim>\<open>waitForRateLimit\<close>. Otherwise the result is the value returned (\<open>Inr\<close>) or the
  \<^verbatim>\<open>SemrushApiError\<close> thrown (\<open>Inl\<close>), with the state the call leaves behind. Log output is
  not modelled.
\<close>

definition makeRequest ::
  "Env \<Rightarrow> SemrushApiClient \<Rightarrow> string \<Rightarrow> ApiQueryParams \<Rightarrow> AxiosOptions \<Rightarrow> World
     \<Rightarrow> ((SemrushApiError + SemrushApiResponse) \<times> World) option" where
  "makeRequest env this u ps options w =
     (let requestParams = with_key this ps;
          cacheKey = u @ '':'' @ JSON_stringify requestParams
      in case cache_get (clock_get env) (apiCache w) cacheKey of
           Some cachedResponse \<Rightarrow> Some (Inr cachedResponse, w)
         | None \<Rightarrow>
            (case waitForRateLimit (polls env) (rateLimiter w) of
               None \<Rightarrow> None
             | Some rl' \<Rightarrow>
                (let req = spread_options \<lparr>http_method = ''get'', url = u, params = requestParams\<rparr>
                             options;
                     w1 = w\<lparr>rateLimiter := rl', sent := sent w @ [req]\<rparr>
                 in case axios env req of
                      Resolved resp \<Rightarrow>
                        (let apiResponse = \<lparr>data = r_data resp, status = r_status resp,
                                            headers = r_headers resp\<rparr>
                         in Some (Inr apiResponse,
                                  w1\<lparr>apiCache :=
                                        cache_set (clock_set env) cacheKey apiResponse
                                          (apiCache w1)\<rparr>))
                    | RejectedAxiosError resp msg \<Rightarrow> Some (Inl (error_of resp msg), w1)
                    | RejectedOther msg \<Rightarrow>
                        Some (Inl \<lparr>message = msg, e_status = 500, response = None\<rparr>, w1))))"


section \<open>The operations\<close>

text \<open>
  The public methods of \<^verbatim>\<open>SemrushApiClient\<close> (lines 153-393), each a parameter object
  handed to \<^verbatim>\<open>makeRequest\<close> with no \<^verbatim>\<open>options\<close>. An argument with the default \<^verbatim>\<open>'us'\<close> is a
  \<open>string option\<close> resolved by \<open>or_us\<close>; an optional \<^verbatim>\<open>limit?: number\<close> is an \<open>int option\<close>.
  \<open>with_display_limit\<close> is the statement \<^verbatim>\<open>if (limit) { params.display_limit = limit; }\<close>
  that every operation with a limit repeats: the test is the truthiness of \<^verbatim>\<open>limit\<close>, false
  for \<^verbatim>\<open>undefined\<close> and for \<^verbatim>\<open>0\<close>.
\<close>

type_synonym Result = "((SemrushApiError + SemrushApiResponse) \<times> World) option"

definition or_us :: "string option \<Rightarrow> string" where
  "or_us arg = (case arg of None \<Rightarrow> ''us'' | Some s \<Rightarrow> s)"

definition with_display_limit :: "int option \<Rightarrow> ApiQueryParams \<Rightarrow> ApiQueryParams" where
  "with_display_limit limit ps =
     (case limit of
        None \<Rightarrow> ps
      | Some n \<Rightarrow> if n \<noteq> 0 then set_prop ''display_limit'' (PNum n) ps else ps)"

definition getDomainOverview ::
  "Env \<Rightarrow> SemrushApiClient \<Rightarrow> string \<Rightarrow> string option \<Rightarrow> World \<Rightarrow> Result" where
  "getDomainOverview env this domain database w =
     makeRequest env this SEMRUSH_API_BASE_URL
       [(''type'', PStr ''domain_ranks''),
         (''domain'', PStr domain),
         (''database'', PStr (or_us database)),
         (''export_columns'',
          PStr ''Db,Dn,Rk,Or,Ot,Oc,Ad,At,Ac,Sh,Sv'')]
       no_options w"

definition getDomainOrganicKeywords ::
  "Env \<Rightarrow> SemrushApiClient \<Rightarrow> string \<Rightarrow> string option \<Rightarrow> int option \<Rightarrow> World \<Rightarrow> Result" where
  "getDomainOrganicKeywords env this domain database limit w =
     makeRequest env this SEMRUSH_API_BASE_URL
       (with_display_limit limit
        [(''type'', PStr ''domain_organic''),
         (''domain'', PStr domain),
         (''database'', PStr (or_us database)),
         (''export_columns'',
          PStr ''Ph,Po,Pp,Pd,Nq,Cp,Ur,Tr,Tc,Co,Nr,Td'')])
       no_options w"

definition getDomainPaidKeywords ::
  "Env \<Rightarrow> SemrushApiClient \<Rightarrow> string \<Rightarrow> string option \<Rightarrow> int option \<Rightarrow> World \<Rightarrow> Result" where
  "getDomainPaidKeywords env this domain database limit w =
     makeRequest env this SEMRUSH_API_BASE_URL
       (with_display_limit limit
        [(''type'', PStr ''domain_adwords''),
         (''domain'', PStr domain),
         (''database'', PStr (or_us database)),
         (''export_columns'',
          PStr ''Ph,Po,Pp,Pd,Ab,Nq,Cp,Tr,Tc,Co,Nr,Td'')])
       no_options w"

definition getCompetitorsInOrganic ::
  "Env \<Rightarrow> SemrushApiClient \<Rightarrow> string \<Rightarrow> string option \<Rightarrow> int option \<Rightarrow> World \<Rightarrow> Result" where
  "getCompetitorsInOrganic env this domain database limit w =
     makeRequest env this SEMRUSH_API_BASE_URL
       (with_display_limit limit
        [(''type'', PStr ''domain_organic_organic''),
         (''domain'', PStr domain),
         (''database'', PStr (or_us database)),
         (''export_columns'',
          PStr ''Dn,Cr,Np,Or,Ot,Oc,Ad,At,Ac'')])
       no_options w"

definition getBacklinks ::
  "Env \<Rightarrow> SemrushApiClient \<Rightarrow> string \<Rightarrow> int option \<Rightarrow> World \<Rightarrow> Result" where
  "getBacklinks env this target limit w =
     makeRequest env this SEMRUSH_API_BASE_URL
       (with_display_limit limit
        [(''type'', PStr ''backlinks''),
         (''target'', PStr target),
         (''export_columns'',
          PStr ''source_title,source_url,target_url,anchor,page_score,domain_score,external_num,internal_num,first_seen,last_seen'')])
       no_options w"

definition getBacklinksDomains ::
  "Env \<Rightarrow> SemrushApiClient \<Rightarrow> string \<Rightarrow> int option \<Rightarrow> World \<Rightarrow> Result" where
  "getBacklinksDomains env this target limit w =
     makeRequest env this SEMRUSH_API_BASE_URL
       (with_display_limit limit
        [(''type'', PStr ''backlinks_refdomains''),
         (''target'', PStr target),
         (''export_columns'',
          PStr ''domain,domain_score,backlinks_num,ip,country,first_seen,last_seen'')])
       no_options w"

definition getKeywordOverview ::
  "Env \<Rightarrow> SemrushApiClient \<Rightarrow> string \<Rightarrow> string option \<Rightarrow> World \<Rightarrow> Result" where
  "getKeywordOverview env this keyword database w =
     makeRequest env this SEMRUSH_API_BASE_URL
       [(''type'', PStr ''phrase_all''),
         (''phrase'', PStr keyword),
         (''database'', PStr (or_us database)),
         (''export_columns'',
          PStr ''Ph,Nq,Cp,Co,Nr,Td'')]
       no_options w"

definition getRelatedKeywords ::
  "Env \<Rightarrow> SemrushApiClient \<Rightarrow> string \<Rightarrow> string option \<Rightarrow> int option \<Rightarrow> World \<Rightarrow> Result" where
  "getRelatedKeywords env this keyword database limit w =
     makeRequest env this SEMRUSH_API_BASE_URL
       (with_display_limit limit
        [(''type'', PStr ''phrase_related''),
         (''phrase'', PStr keyword),
         (''database'', PStr (or_us database)),
         (''export_columns'',
          PStr ''Ph,Nq,Cp,Co,Nr,Td'')])
       no_options w"

definition getKeywordOverviewSingleDb ::
  "Env \<Rightarrow> SemrushApiClient \<Rightarrow> string \<Rightarrow> string \<Rightarrow> World \<Rightarrow> Result" where
  "getKeywordOverviewSingleDb env this keyword database w =
     makeRequest env this SEMRUSH_API_BASE_URL
       [(''type'', PStr ''phrase_this''),
         (''phrase'', PStr keyword),
         (''database'', PStr database),
         (''export_columns'',
          PStr ''Ph,Nq,Cp,Co,Nr,Td,In,Kd'')]
       no_options w"

definition getBatchKeywordOverview ::
  "Env \<Rightarrow> SemrushApiClient \<Rightarrow> string list \<Rightarrow> string \<Rightarrow> World \<Rightarrow> Result" where
  "getBatchKeywordOverview env this keywords database w =
     makeRequest env this SEMRUSH_API_BASE_URL
       [(''type'', PStr ''phrase_these''),
         (''phrase'', PStr (join '';'' keywords)),
         (''database'', PStr database),
         (''export_columns'',
          PStr ''Ph,Nq,Cp,Co,Nr,Td,In,Kd'')]
       no_options w"

definition getKeywordOrganicResults ::
  "Env \<Rightarrow> SemrushApiClient \<Rightarrow> string \<Rightarrow> string \<Rightarrow> int option \<Rightarrow> World \<Rightarrow> Result" where
  "getKeywordOrganicResults env this keyword database limit w =
     makeRequest env this SEMRUSH_API_BASE_URL
       (with_display_limit limit
        [(''type'', PStr ''phrase_organic''),
         (''phrase'', PStr keyword),
         (''database'', PStr database),
         (''export_columns'',
          PStr ''Po,Pt,Dn,Ur,Fk,Fp,Fl'')])
       no_options w"

definition getKeywordPaidResults ::
  "Env \<Rightarrow> SemrushApiClient \<Rightarrow> string \<Rightarrow> string \<Rightarrow> int option \<Rightarrow> World \<Rightarrow> Result" where
  "getKeywordPaidResults env this keyword database limit w =
     makeRequest env this SEMRUSH_API_BASE_URL
       (with_display_limit limit
        [(''type'', PStr ''phrase_adwords''),
         (''phrase'', PStr keyword),
         (''database'', PStr database),
         (''export_columns'',
          PStr ''Dn,Ur,Vu'')])
       no_options w"

definition getKeywordAdsHistory ::
  "Env \<Rightarrow> SemrushApiClient \<Rightarrow> string \<Rightarrow> string \<Rightarrow> int option \<Rightarrow> World \<Rightarrow> Result" where
  "getKeywordAdsHistory env this keyword database limit w =
     makeRequest env this SEMRUSH_API_BASE_URL
       (with_display_limit limit
        [(''type'', PStr ''phrase_adwords_historical''),
         (''phrase'', PStr keyword),
         (''database'', PStr database),
         (''export_columns'',
          PStr ''Dn,Dt,Po,Ur,Tt,Ds,Vu'')])
       no_options w"

definition getBroadMatchKeywords ::
  "Env \<Rightarrow> SemrushApiClient \<Rightarrow> string \<Rightarrow> string \<Rightarrow> int option \<Rightarrow> World \<Rightarrow> Result" where
  "getBroadMatchKeywords env this keyword database limit w =
     makeRequest env this SEMRUSH_API_BASE_URL
       (with_display_limit limit
        [(''type'', PStr ''phrase_fullsearch''),
         (''phrase'', PStr keyword),
         (''database'', PStr database),
         (''export_columns'',
          PStr ''Ph,Nq,Cp,Co,Nr,Td,Fk,In,Kd'')])
       no_options w"

definition getPhraseQuestions ::
  "Env \<Rightarrow> SemrushApiClient \<Rightarrow> string \<Rightarrow> string \<Rightarrow> int option \<Rightarrow> World \<Rightarrow> Result" where
  "getPhraseQuestions env this keyword database limit w =
     makeRequest env this SEMRUSH_API_BASE_URL
       (with_display_limit limit
        [(''type'', PStr ''phrase_questions''),
         (''phrase'', PStr keyword),
         (''database'', PStr database),
         (''export_columns'',
          PStr ''Ph,Nq,Cp,Co,Nr,Td,In,Kd'')])
       no_options w"

definition getKeywordDifficulty ::
  "Env \<Rightarrow> SemrushApiClient \<Rightarrow> string list \<Rightarrow> string \<Rightarrow> World \<Rightarrow> Result" where
  "getKeywordDifficulty env this keywords database w =
     makeRequest env this SEMRUSH_API_BASE_URL
       [(''type'', PStr ''phrase_kdi''),
         (''phrase'', PStr (join '';'' keywords)),
         (''database'', PStr database),
         (''export_columns'',
          PStr ''Ph,Kd'')]
       no_options w"

definition getTrafficSummary ::
  "Env \<Rightarrow> SemrushApiClient \<Rightarrow> string list \<Rightarrow> string option \<Rightarrow> World \<Rightarrow> Result" where
  "getTrafficSummary env this domains country w =
     makeRequest env this (TRENDS_API_BASE_URL @ ''summary'')
       [(''domains'', PStr (join '','' domains)),
         (''country'', PStr (or_us country)),
         (''date'', PStr ''all'')]
       no_options w"

definition getTrafficSources ::
  "Env \<Rightarrow> SemrushApiClient \<Rightarrow> string \<Rightarrow> string option \<Rightarrow> World \<Rightarrow> Result" where
  "getTrafficSources env this domain country w =
     makeRequest env this (TRENDS_API_BASE_URL @ ''sources'')
       [(''domain'', PStr domain),
         (''country'', PStr (or_us country)),
         (''date'', PStr ''all'')]
       no_options w"

definition getApiUnitsBalance ::
  "Env \<Rightarrow> SemrushApiClient \<Rightarrow> World \<Rightarrow> Result" where
  "getApiUnitsBalance env this w =
     makeRequest env this SEMRUSH_API_BASE_URL
       [(''type'', PStr ''api_units'')]
       no_options w"

text \<open>
  One value per call of a public method, so that a statement can range over every operation;
  \<open>invoke\<close> makes the call. \<open>limit_of\<close> reads the limit argument of a call whose method
  has one, and \<open>without_limit\<close> is the same call with that argument left out.
\<close>

datatype Operation =
    GetDomainOverview string "string option"
  | GetDomainOrganicKeywords string "string option" "int option"
  | GetDomainPaidKeywords string "string option" "int option"
  | GetCompetitorsInOrganic string "string option" "int option"
  | GetBacklinks string "int option"
  | GetBacklinksDomains string "int option"
  | GetKeywordOverview string "string option"
  | GetRelatedKeywords string "string option" "int option"
  | GetKeywordOverviewSingleDb string string
  | GetBatchKeywordOverview "string list" string
  | GetKeywordOrganicResults string string "int option"
  | GetKeywordPaidResults string string "int option"
  | GetKeywordAdsHistory string string "int option"
  | GetBroadMatchKeywords string string "int option"
  | GetPhraseQuestions string string "int option"
  | GetKeywordDifficulty "string list" string
  | GetTrafficSummary "string list" "string option"
  | GetTrafficSources string "string option"
  | GetApiUnitsBalance

fun invoke :: "Env \<Rightarrow> SemrushApiClient \<Rightarrow> Operation \<Rightarrow> World \<Rightarrow> Result" where
  "invoke env this (GetDomainOverview domain database) w =
     getDomainOverview env this domain database w"
| "invoke env this (GetDomainOrganicKeywords domain database limit) w =
     getDomainOrganicKeywords env this domain database limit w"
| "invoke env this (GetDomainPaidKeywords domain database limit) w =
     getDomainPaidKeywords env this domain database limit w"
| "invoke env this (GetCompetitorsInOrganic domain database limit) w =
     getCompetitorsInOrganic env this domain database limit w"
| "invoke env this (GetBacklinks target limit) w =
     getBacklinks env this target limit w"
| "invoke env this (GetBacklinksDomains target limit) w =
     getBacklinksDomains env this target limit w"
| "invoke env this (GetKeywordOverview keyword database) w =
     getKeywordOverview env this keyword database w"
| "invoke env this (GetRelatedKeywords keyword database limit) w =
     getRelatedKeywords env this keyword database limit w"
| "invoke env this (GetKeywordOverviewSingleDb keyword database) w =
     getKeywordOverviewSingleDb env this keyword database w"
| "invoke env this (GetBatchKeywordOverview keywords database) w =
     getBatchKeywordOverview env this keywords database w"
| "invoke env this (GetKeywordOrganicResults keyword database limit) w =
     getKeywordOrganicResults env this keyword database limit w"
| "invoke env this (GetKeywordPaidResults keyword database limit) w =
     getKeywordPaidResults env this keyword database limit w"
| "invoke env this (GetKeywordAdsHistory keyword database limit) w =
     getKeywordAdsHistory env this keyword database limit w"
| "invoke env this (GetBroadMatchKeywords keyword database limit) w =
     getBroadMatchKeywords env this keyword database limit w"
| "invoke env this (GetPhraseQuestions keyword database limit) w =
     getPhraseQuestions env this keyword database limit w"
| "invoke env this (GetKeywordDifficulty keywords database) w =
     getKeywordDifficulty env this keywords database w"
| "invoke env this (GetTrafficSummary domains country) w =
     getTrafficSummary env this domains country w"
| "invoke env this (GetTrafficSources domain country) w =
     getTrafficSources env this domain country w"
| "invoke env this (GetApiUnitsBalance) w =
     getApiUnitsBalance env this w"

fun limit_of :: "Operation \<Rightarrow> int option" where
  "limit_of (GetDomainOrganicKeywords domain database limit) = limit"
| "limit_of (GetDomainPaidKeywords domain database limit) = limit"
| "limit_of (GetCompetitorsInOrganic domain database limit) = limit"
| "limit_of (GetBacklinks target limit) = limit"
| "limit_of (GetBacklinksDomains target limit) = limit"
| "limit_of (GetRelatedKeywords keyword database limit) = limit"
| "limit_of (GetKeywordOrganicResults keyword database limit) = limit"
| "limit_of (GetKeywordPaidResults keyword database limit) = limit"
| "limit_of (GetKeywordAdsHistory keyword database limit) = limit"
| "limit_of (GetBroadMatchKeywords keyword database limit) = limit"
| "limit_of (GetPhraseQuestions keyword database limit) = limit"
| "limit_of _ = None"

fun without_limit :: "Operation \<Rightarrow> Operation" where
  "without_limit (GetDomainOrganicKeywords domain database limit) = GetDomainOrganicKeywords domain database None"
| "without_limit (GetDomainPaidKeywords domain database limit) = GetDomainPaidKeywords domain database None"
| "without_limit (GetCompetitorsInOrganic domain database limit) = GetCompetitorsInOrganic domain database None"
| "without_limit (GetBacklinks target limit) = GetBacklinks target None"
| "without_limit (GetBacklinksDomains target limit) = GetBacklinksDomains target None"
| "without_limit (GetRelatedKeywords keyword database limit) = GetRelatedKeywords keyword database None"
| "without_limit (GetKeywordOrganicResults keyword database limit) = GetKeywordOrganicResults keyword database None"
| "without_limit (GetKeywordPaidResults keyword database limit) = GetKeywordPaidResults keyword database None"
| "without_limit (GetKeywordAdsHistory keyword database limit) = GetKeywordAdsHistory keyword database None"
| "without_limit (GetBroadMatchKeywords keyword database limit) = GetBroadMatchKeywords keyword database None"
| "without_limit (GetPhraseQuestions keyword database limit) = GetPhraseQuestions keyword database None"
| "without_limit op = op"

section \<open>Example values\<close>

text \<open>
  Concrete inputs for evaluating the model: a client with the key \<^verbatim>\<open>K\<close>; the state right
  after the module was loaded with that key and the default settings (cache life time 300 s,
  10 requests per second); and the environment of one call made at time \<open>t\<close>, admitted at
  its first poll, with the library's default status check applied to a given answer of the
  server and the cache written 50 ms later.
\<close>

definition example_config :: Config where
  "example_config =
     \<lparr>SEMRUSH_API_KEY = Some ''K'', API_CACHE_TTL_SECONDS = 300,
      API_RATE_LIMIT_PER_SECOND = 10\<rparr>"

definition example_client :: SemrushApiClient where
  "example_client = \<lparr>apiKey = ''K''\<rparr>"

definition example_world :: World where
  "example_world =
     \<lparr>apiCache = NodeCache_new 300,
      rateLimiter = \<lparr>requestTimestamps = [], rateLimit = 10\<rparr>, sent = []\<rparr>"

definition example_env :: "Upstream \<Rightarrow> int \<Rightarrow> Env" where
  "example_env reply t =
     \<lparr>axios = (\<lambda>req. axios_default reply), clock_get = t, polls = [(t, t)],
      clock_set = t + 50\<rparr>"

section \<open>Properties of the rate limiter\<close>

lemma checkRateLimit_eq:
  "checkRateLimit p rl =
     (if int (length (filter (\<lambda>ts. fst p - 1000 < ts) (requestTimestamps rl))) < rateLimit rl
      then (True, rl\<lparr>requestTimestamps := filter (\<lambda>ts. fst p - 1000 < ts) (requestTimestamps rl) @ [snd p]\<rparr>)
      else (False, rl\<lparr>requestTimestamps := filter (\<lambda>ts. fst p - 1000 < ts) (requestTimestamps rl)\<rparr>))"
  by (simp add: checkRateLimit_def canMakeRequest_def recordRequest_def Let_def)

lemma admission_bound:
  assumes "checkRateLimit p rl = (True, rl')"
  shows "int (length (requestTimestamps rl')) \<le> rateLimit rl'"
  using assms by (auto simp: checkRateLimit_eq split: if_splits)

lemma window_step:
  assumes inv: "requestTimestamps rl = filter (\<lambda>ts. c < ts) L"
    and c: "c + 1000 \<le> T"
    and srt: "sorted (T # readings ps)"
    and bnd: "\<forall>t. int (length (filter (in_window t) L)) \<le> rateLimit rl"
  shows "\<forall>t. int (length (filter (in_window t) (L @ admitted ps rl))) \<le> rateLimit rl"
  using assms
proof (induction ps arbitrary: rl L c T)
  case Nil
  then show ?case by simp
next
  case (Cons p ps)
  obtain a b where p: "p = (a, b)" by (cases p)
  from Cons.prems(3) have Ta: "T \<le> a" and ab: "a \<le> b" and srt': "sorted (b # readings ps)"
    by (auto simp: readings_def p)
  let ?R = "filter (\<lambda>ts. a - 1000 < ts) (requestTimestamps rl)"
  have R: "?R = filter (\<lambda>ts. a - 1000 < ts) L"
    using Cons.prems(1,2) Ta by (auto intro!: filter_cong)
  show ?case
  proof (cases "int (length ?R) < rateLimit rl")
    case False
    let ?rl' = "rl\<lparr>requestTimestamps := ?R\<rparr>"
    have "\<forall>t. int (length (filter (in_window t) (L @ admitted ps ?rl'))) \<le> rateLimit ?rl'"
    proof (rule Cons.IH[where c = "a - 1000" and T = b])
      show "requestTimestamps ?rl' = filter (\<lambda>ts. a - 1000 < ts) L" using R by simp
      show "a - 1000 + 1000 \<le> b" using ab by simp
      show "sorted (b # readings ps)" by (rule srt')
      show "\<forall>t. int (length (filter (in_window t) L)) \<le> rateLimit ?rl'" using Cons.prems(4) by simp
    qed
    with False show ?thesis by (simp add: checkRateLimit_eq p)
  next
    case True
    let ?rl' = "rl\<lparr>requestTimestamps := ?R @ [b]\<rparr>"
    have "\<forall>t. int (length (filter (in_window t) ((L @ [b]) @ admitted ps ?rl'))) \<le> rateLimit ?rl'"
    proof (rule Cons.IH[where c = "a - 1000" and T = b])
      show "requestTimestamps ?rl' = filter (\<lambda>ts. a - 1000 < ts) (L @ [b])" using R ab by simp
      show "a - 1000 + 1000 \<le> b" using ab by simp
      show "sorted (b # readings ps)" by (rule srt')
      show "\<forall>t. int (length (filter (in_window t) (L @ [b]))) \<le> rateLimit ?rl'"
      proof
        fix t
        show "int (length (filter (in_window t) (L @ [b]))) \<le> rateLimit ?rl'"
        proof (cases "in_window t b")
          case False
          then show ?thesis using Cons.prems(4) by simp
        next
          case inw: True
          have "length (filter (in_window t) L) \<le> length (filter (\<lambda>ts. a - 1000 < ts) L)"
          proof -
            have "filter (in_window t) L = filter (in_window t) (filter (\<lambda>ts. a - 1000 < ts) L)"
              using inw ab by (auto simp: in_window_def intro!: filter_cong)
            then show ?thesis by (metis length_filter_le)
          qed
          with True R inw show ?thesis by simp
        qed
      qed
    qed
    with True show ?thesis by (simp add: checkRateLimit_eq p)
  qed
qed

lemma waitForRateLimit_live:
  assumes "0 < rateLimit rl"
    and "\<exists>p\<in>set ps. \<forall>ts\<in>set (requestTimestamps rl). ts \<le> fst p - 1000"
  shows "\<exists>rl'. waitForRateLimit ps rl = Some rl'"
  using assms
proof (induction ps arbitrary: rl)
  case Nil
  then show ?case by simp
next
  case (Cons p ps)
  let ?R = "filter (\<lambda>ts. fst p - 1000 < ts) (requestTimestamps rl)"
  show ?case
  proof (cases "int (length ?R) < rateLimit rl")
    case True
    then show ?thesis by (simp add: checkRateLimit_eq)
  next
    case False
    have "?R \<noteq> []" using False Cons.prems(1) by auto
    then have "\<not> (\<forall>ts\<in>set (requestTimestamps rl). ts \<le> fst p - 1000)"
      by (fastforce simp: filter_empty_conv)
    with Cons.prems(2) obtain q where q: "q \<in> set ps" "\<forall>ts\<in>set (requestTimestamps rl). ts \<le> fst q - 1000"
      by auto
    let ?rl' = "rl\<lparr>requestTimestamps := ?R\<rparr>"
    have "\<exists>rl'. waitForRateLimit ps ?rl' = Some rl'"
      by (rule Cons.IH) (use Cons.prems(1) q in auto)
    with False show ?thesis by (simp add: checkRateLimit_eq)
  qed
qed

lemma waitForRateLimit_none:
  assumes "rateLimit rl \<le> 0"
  shows "waitForRateLimit ps rl = None"
  using assms
  by (induction ps arbitrary: rl) (auto simp: checkRateLimit_eq)



lemma admitted_none:
  assumes "rateLimit rl \<le> 0"
  shows "admitted ps rl = []"
  using assms
  by (induction ps arbitrary: rl) (auto simp: checkRateLimit_eq)

lemma poll_times_live:
  assumes "0 < rateLimit rl" and "\<forall>ts\<in>set (requestTimestamps rl). ts \<le> start"
  shows "\<exists>rl'. waitForRateLimit (poll_times start 11) rl = Some rl'"
proof (rule waitForRateLimit_live[OF assms(1)])
  have "(start + 1000, start + 1000) \<in> set (poll_times start 11)"
    unfolding poll_times_def by (simp add: image_iff)
  moreover have "\<forall>ts\<in>set (requestTimestamps rl). ts \<le> fst (start + 1000, start + 1000) - 1000"
    using assms(2) by simp
  ultimately show "\<exists>p\<in>set (poll_times start 11). \<forall>ts\<in>set (requestTimestamps rl). ts \<le> fst p - 1000"
    by blast
qed


text \<open>
  C5. Right after a poll has granted a slot, the limiter holds at most \<open>rateLimit\<close> time
  stamps in all, hence at most \<open>rateLimit\<close> that are less than one second old, whatever
  the time \<open>now\<close> at which age is measured. For a limiter as constructed, with a limit that is
  not negative and a clock that never goes back, the time stamps admitted along any sequence
  of polls, of any number of callers, number at most \<open>rateLimit\<close> in every window of
  1000 ms, taken as the times from \<open>t\<close> up to but not including \<open>t + 1000\<close>. A poll
  that finds \<open>rateLimit\<close> or more time stamps less than one second old grants nothing
  and leaves the caller waiting for the next poll: the request is delayed, there is no
  rejection. A lone caller polling every 100 ms, with a
  positive limit and no recorded time stamp in its future, is granted a slot within eleven
  polls, that is after at most one second.
\<close>

theorem rate_limit_window:
  "(checkRateLimit p rl = (True, rl') \<longrightarrow>
      int (length (filter (\<lambda>ts. now - 1000 < ts) (requestTimestamps rl'))) \<le> rateLimit rl')
   \<and> (RateLimiter_new config arg = Inr rl0 \<and> 0 \<le> rateLimit rl0 \<and> sorted (readings ps) \<longrightarrow>
      int (length (filter (in_window t) (admitted ps rl0))) \<le> rateLimit rl0)
   \<and> (rateLimit rl \<le> int (length (filter (\<lambda>ts. fst q - 1000 < ts) (requestTimestamps rl))) \<longrightarrow>
      waitForRateLimit (q # qs) rl =
        waitForRateLimit qs
          (rl\<lparr>requestTimestamps := filter (\<lambda>ts. fst q - 1000 < ts) (requestTimestamps rl)\<rparr>))
   \<and> (0 < rateLimit rl \<and> (\<forall>ts\<in>set (requestTimestamps rl). ts \<le> start) \<longrightarrow>
      (\<exists>rl'. waitForRateLimit (poll_times start 11) rl = Some rl'))"
proof (intro conjI impI)
  assume adm: "checkRateLimit p rl = (True, rl')"
  have "length (filter (\<lambda>ts. now - 1000 < ts) (requestTimestamps rl'))
          \<le> length (requestTimestamps rl')"
    by (rule length_filter_le)
  with admission_bound[OF adm]
  show "int (length (filter (\<lambda>ts. now - 1000 < ts) (requestTimestamps rl'))) \<le> rateLimit rl'"
    by linarith
next
  assume h: "RateLimiter_new config arg = Inr rl0 \<and> 0 \<le> rateLimit rl0 \<and> sorted (readings ps)"
  then have empty: "requestTimestamps rl0 = []"
    by (auto simp: RateLimiter_new_def)
  show "int (length (filter (in_window t) (admitted ps rl0))) \<le> rateLimit rl0"
  proof (cases ps)
    case Nil
    with h show ?thesis by simp
  next
    case (Cons p' ps')
    have "sorted (fst p' # readings ps)"
      using h by (simp add: readings_def Cons)
    from window_step[where L = "[]" and c = "fst p' - 1000" and T = "fst p'", OF _ _ this]
    show ?thesis using empty h by simp
  qed
next
  assume "rateLimit rl \<le> int (length (filter (\<lambda>ts. fst q - 1000 < ts) (requestTimestamps rl)))"
  then show "waitForRateLimit (q # qs) rl =
        waitForRateLimit qs
          (rl\<lparr>requestTimestamps := filter (\<lambda>ts. fst q - 1000 < ts) (requestTimestamps rl)\<rparr>)"
    by (simp add: checkRateLimit_eq)
next
  assume "0 < rateLimit rl \<and> (\<forall>ts\<in>set (requestTimestamps rl). ts \<le> start)"
  then show "\<exists>rl'. waitForRateLimit (poll_times start 11) rl = Some rl'"
    using poll_times_live by blast
qed


theorem rate_limit_window_witness:
  "checkRateLimit (5, 5) \<lparr>requestTimestamps = replicate 9 0, rateLimit = 10\<rparr>
     = (True, \<lparr>requestTimestamps = replicate 9 0 @ [5], rateLimit = 10\<rparr>)
   \<and> int (length (filter (\<lambda>ts. 5 - 1000 < ts) (replicate 9 0 @ [5]))) \<le> 10
   \<and> RateLimiter_new \<lparr>SEMRUSH_API_KEY = None, API_CACHE_TTL_SECONDS = 300,
         API_RATE_LIMIT_PER_SECOND = 10\<rparr> None = Inr \<lparr>requestTimestamps = [], rateLimit = 10\<rparr>
   \<and> sorted (readings (replicate 10 (0, 0) @ poll_times 0 11))
   \<and> admitted (replicate 10 (0, 0) @ poll_times 0 11) \<lparr>requestTimestamps = [], rateLimit = 10\<rparr>
       = replicate 10 0 @ [1000]
   \<and> int (length (filter (in_window 0)
         (admitted (replicate 10 (0, 0) @ poll_times 0 11)
            \<lparr>requestTimestamps = [], rateLimit = 10\<rparr>))) \<le> 10
   \<and> (10::int) \<le> int (length (filter (\<lambda>ts. 0 - 1000 < ts) (replicate 10 (0::int))))
   \<and> waitForRateLimit ((0, 0) # poll_times 100 10)
         \<lparr>requestTimestamps = replicate 10 0, rateLimit = 10\<rparr>
       = waitForRateLimit (poll_times 100 10)
           \<lparr>requestTimestamps = replicate 10 0, rateLimit = 10\<rparr>
   \<and> waitForRateLimit (poll_times 0 11) \<lparr>requestTimestamps = replicate 10 0, rateLimit = 10\<rparr>
       = Some \<lparr>requestTimestamps = [1000], rateLimit = 10\<rparr>"
  using rate_limit_window
    [where p = "(5, 5)" and rl = "\<lparr>requestTimestamps = replicate 9 0, rateLimit = 10\<rparr>"
       and rl' = "\<lparr>requestTimestamps = replicate 9 0 @ [5], rateLimit = 10\<rparr>" and now = 5
       and config = "\<lparr>SEMRUSH_API_KEY = None, API_CACHE_TTL_SECONDS = 300,
         API_RATE_LIMIT_PER_SECOND = 10\<rparr>" and arg = None
       and ?rl0.0 = "\<lparr>requestTimestamps = [], rateLimit = 10\<rparr>"
       and ps = "replicate 10 (0, 0) @ poll_times 0 11" and t = 0]
    rate_limit_window
    [where q = "(0, 0)" and rl = "\<lparr>requestTimestamps = replicate 10 0, rateLimit = 10\<rparr>"
       and qs = "poll_times 100 10" and start = 0]
  by (simp add: poll_times_def upt_rec checkRateLimit_eq RateLimiter_new_def readings_def
        in_window_def eval_nat_numeral)


text \<open>
  C2. The constructor has no check, so the claim fails: a limit of zero, or a negative one,
  is accepted, whether passed as the argument or read from the configuration.
\<close>

theorem RateLimiter_new_rejects_counterexample:
  "RateLimiter_new \<lparr>SEMRUSH_API_KEY = None, API_CACHE_TTL_SECONDS = 300,
       API_RATE_LIMIT_PER_SECOND = 10\<rparr> (Some 0)
     = Inr \<lparr>requestTimestamps = [], rateLimit = 0\<rparr>
   \<and> RateLimiter_new \<lparr>SEMRUSH_API_KEY = None, API_CACHE_TTL_SECONDS = 300,
       API_RATE_LIMIT_PER_SECOND = - 3\<rparr> None
     = Inr \<lparr>requestTimestamps = [], rateLimit = - 3\<rparr>"
  by (simp add: RateLimiter_new_def)

text \<open>
  C2, as amended. Construction never fails. The limiter gets the limit given, or the
  configured one when none is given, and an empty list of time stamps. With a limit of zero
  or below it admits nothing: no sequence of polls grants a slot, and a caller of
  \<^verbatim>\<open>waitForRateLimit\<close> stays pending however long it polls.
\<close>

theorem RateLimiter_new_total:
  "\<exists>rl. RateLimiter_new config arg = Inr rl
      \<and> requestTimestamps rl = []
      \<and> rateLimit rl = (case arg of None \<Rightarrow> API_RATE_LIMIT_PER_SECOND config | Some n \<Rightarrow> n)
      \<and> (rateLimit rl \<le> 0 \<longrightarrow> waitForRateLimit ps rl = None \<and> admitted ps rl = [])"
  by (simp add: RateLimiter_new_def waitForRateLimit_none admitted_none)

theorem RateLimiter_new_total_witness:
  "RateLimiter_new \<lparr>SEMRUSH_API_KEY = None, API_CACHE_TTL_SECONDS = 300,
       API_RATE_LIMIT_PER_SECOND = 10\<rparr> (Some 0)
     = Inr \<lparr>requestTimestamps = [], rateLimit = 0\<rparr>
   \<and> (0::int) \<le> 0
   \<and> waitForRateLimit (poll_times 0 11) \<lparr>requestTimestamps = [], rateLimit = 0\<rparr> = None
   \<and> admitted (poll_times 0 11) \<lparr>requestTimestamps = [], rateLimit = 0\<rparr> = []"
  using RateLimiter_new_total
    [of "\<lparr>SEMRUSH_API_KEY = None, API_CACHE_TTL_SECONDS = 300,
       API_RATE_LIMIT_PER_SECOND = 10\<rparr>" "Some 0" "poll_times 0 11"]
  by (auto simp: RateLimiter_new_def)

section \<open>Properties of the request client\<close>

subsection \<open>The paths of makeRequest\<close>

lemma map_of_set_prop: "map_of (set_prop k v kvs) k = Some v"
  by (induction kvs) auto

lemma map_of_set_prop_other: "k' \<noteq> k \<Longrightarrow> map_of (set_prop k v kvs) k' = map_of kvs k'"
  by (induction kvs) auto

lemma makeRequest_hit:
  assumes "cache_get (clock_get env) (apiCache w) (cache_key this u ps) = Some c"
  shows "makeRequest env this u ps options w = Some (Inr c, w)"
  using assms by (simp add: makeRequest_def cache_key_def Let_def)

lemma makeRequest_pending:
  assumes "cache_get (clock_get env) (apiCache w) (cache_key this u ps) = None"
    and "waitForRateLimit (polls env) (rateLimiter w) = None"
  shows "makeRequest env this u ps options w = None"
  using assms by (simp add: makeRequest_def cache_key_def Let_def)

lemma makeRequest_fetch:
  assumes "cache_get (clock_get env) (apiCache w) (cache_key this u ps) = None"
    and "waitForRateLimit (polls env) (rateLimiter w) = Some rl'"
  shows "makeRequest env this u ps options w =
     (case axios env (spread_options \<lparr>http_method = ''get'', url = u, params = with_key this ps\<rparr> options) of
        Resolved resp \<Rightarrow>
          Some (Inr \<lparr>data = r_data resp, status = r_status resp, headers = r_headers resp\<rparr>,
                \<lparr>apiCache = cache_set (clock_set env) (cache_key this u ps)
                     \<lparr>data = r_data resp, status = r_status resp, headers = r_headers resp\<rparr>
                     (apiCache w),
                 rateLimiter = rl',
                 sent = sent w @ [spread_options \<lparr>http_method = ''get'', url = u, params = with_key this ps\<rparr> options]\<rparr>)
      | RejectedAxiosError resp msg \<Rightarrow>
          Some (Inl (error_of resp msg),
                \<lparr>apiCache = apiCache w, rateLimiter = rl',
                 sent = sent w @ [spread_options \<lparr>http_method = ''get'', url = u, params = with_key this ps\<rparr> options]\<rparr>)
      | RejectedOther msg \<Rightarrow>
          Some (Inl \<lparr>message = msg, e_status = 500, response = None\<rparr>,
                \<lparr>apiCache = apiCache w, rateLimiter = rl',
                 sent = sent w @ [spread_options \<lparr>http_method = ''get'', url = u, params = with_key this ps\<rparr> options]\<rparr>))"
  using assms by (simp add: makeRequest_def cache_key_def Let_def split: AxiosOutcome.splits)

lemma spread_no_options [simp]: "spread_options cfg no_options = cfg"
  by (simp add: spread_options_def no_options_def)

lemmas op_defs = getDomainOverview_def getDomainOrganicKeywords_def getDomainPaidKeywords_def
        getCompetitorsInOrganic_def getBacklinks_def getBacklinksDomains_def
        getKeywordOverview_def getRelatedKeywords_def getKeywordOverviewSingleDb_def
        getBatchKeywordOverview_def getKeywordOrganicResults_def getKeywordPaidResults_def
        getKeywordAdsHistory_def getBroadMatchKeywords_def getPhraseQuestions_def
        getKeywordDifficulty_def getTrafficSummary_def getTrafficSources_def
        getApiUnitsBalance_def

lemma invoke_makeRequest:
  "\<exists>u ps. \<forall>env w. invoke env this op w = makeRequest env this u ps no_options w"
  by (cases op) (auto simp: op_defs)

lemma cache_get_mono:
  assumes "cache_get now c k = None" and "now \<le> now'"
  shows "cache_get now' c k = None"
  using assms by (auto simp: cache_get_def split: option.splits if_splits)

lemma makeRequest_error_cases:
  assumes "makeRequest env this u ps options w = Some (Inl e, w')"
  shows "cache_get (clock_get env) (apiCache w) (cache_key this u ps) = None
    \<and> apiCache w' = apiCache w
    \<and> sent w' = sent w @ [spread_options \<lparr>http_method = ''get'', url = u, params = with_key this ps\<rparr> options]"
proof (cases "cache_get (clock_get env) (apiCache w) (cache_key this u ps)")
  case (Some c)
  with assms show ?thesis by (simp add: makeRequest_hit)
next
  case None
  show ?thesis
  proof (cases "waitForRateLimit (polls env) (rateLimiter w)")
    case N: None
    with None assms show ?thesis by (simp add: makeRequest_pending)
  next
    case (Some rl')
    with None assms show ?thesis
      by (auto simp: makeRequest_fetch split: AxiosOutcome.splits)
  qed
qed

lemma makeRequest_miss_sent:
  assumes "cache_get (clock_get env) (apiCache w) (cache_key this u ps) = None"
    and "makeRequest env this u ps options w = Some (res, w')"
  shows "sent w' = sent w @ [spread_options \<lparr>http_method = ''get'', url = u, params = with_key this ps\<rparr> options]"
proof (cases "waitForRateLimit (polls env) (rateLimiter w)")
  case None
  with assms show ?thesis by (simp add: makeRequest_pending)
next
  case (Some rl')
  with assms show ?thesis
    by (auto simp: makeRequest_fetch split: AxiosOutcome.splits)
qed

lemma makeRequest_sent:
  assumes "makeRequest env this u ps options w = Some (res, w')"
  shows "sent w' = sent w
    \<or> sent w' = sent w @ [spread_options \<lparr>http_method = ''get'', url = u, params = with_key this ps\<rparr> options]"
proof (cases "cache_get (clock_get env) (apiCache w) (cache_key this u ps)")
  case None
  from makeRequest_miss_sent[OF None assms] show ?thesis by simp
next
  case (Some c)
  with assms show ?thesis by (simp add: makeRequest_hit)
qed

lemma makeRequest_success_entry:
  assumes "makeRequest env this u ps options w = Some (Inr r, w1)"
  shows "(cache_get (clock_get env) (apiCache w) (cache_key this u ps) = Some r \<and> w1 = w)
    \<or> (cache_get (clock_get env) (apiCache w) (cache_key this u ps) = None
        \<and> sent w1 \<noteq> sent w
        \<and> entries (apiCache w1) (cache_key this u ps) =
            Some (r, if stdTTL (apiCache w) = 0 then 0
                     else clock_set env + stdTTL (apiCache w) * 1000))"
proof (cases "cache_get (clock_get env) (apiCache w) (cache_key this u ps)")
  case (Some c)
  with assms show ?thesis by (simp add: makeRequest_hit)
next
  case None
  show ?thesis
  proof (cases "waitForRateLimit (polls env) (rateLimiter w)")
    case N: None
    with None assms show ?thesis by (simp add: makeRequest_pending)
  next
    case (Some rl')
    with None assms show ?thesis
      by (auto simp: makeRequest_fetch cache_set_def split: AxiosOutcome.splits)
  qed
qed

lemma cache_get_entry:
  assumes "entries c k = Some (r, t)" and "t = 0 \<or> now \<le> t"
  shows "cache_get now c k = Some r"
  using assms by (auto simp: cache_get_def)

lemma cache_get_Some_entry:
  assumes "cache_get now c k = Some r"
  shows "\<exists>t. entries c k = Some (r, t)"
  using assms by (auto simp: cache_get_def split: option.splits if_splits)

lemma cache_get_live:
  assumes "entries c k = Some (r, t)" and "cache_get now c k \<noteq> None"
  shows "cache_get now c k = Some r"
  using assms by (auto simp: cache_get_def split: if_splits)

lemma makeRequest_again:
  assumes first: "makeRequest env1 this u ps options w = Some (Inr r, w1)"
    and live: "cache_get (clock_get env2) (apiCache w1) (cache_key this u ps) \<noteq> None"
  shows "makeRequest env2 this u ps options (w1\<lparr>rateLimiter := rl\<rparr>)
           = Some (Inr r, w1\<lparr>rateLimiter := rl\<rparr>)"
proof -
  from makeRequest_success_entry[OF first]
  obtain t where "entries (apiCache w1) (cache_key this u ps) = Some (r, t)"
    using cache_get_Some_entry by blast
  from cache_get_live[OF this live]
  have "cache_get (clock_get env2) (apiCache (w1\<lparr>rateLimiter := rl\<rparr>)) (cache_key this u ps) = Some r"
    by simp
  then show ?thesis by (rule makeRequest_hit)
qed

lemma makeRequest_again_ttl:
  assumes first: "makeRequest env1 this u ps options w = Some (Inr r, w1)"
    and fetched: "sent w1 \<noteq> sent w"
    and ttl: "stdTTL (apiCache w) = 0 \<or> clock_get env2 \<le> clock_set env1 + stdTTL (apiCache w) * 1000"
  shows "makeRequest env2 this u ps options (w1\<lparr>rateLimiter := rl\<rparr>)
           = Some (Inr r, w1\<lparr>rateLimiter := rl\<rparr>)"
proof -
  from makeRequest_success_entry[OF first] fetched
  have e: "entries (apiCache w1) (cache_key this u ps) =
            Some (r, if stdTTL (apiCache w) = 0 then 0
                     else clock_set env1 + stdTTL (apiCache w) * 1000)"
    by auto
  have "cache_get (clock_get env2) (apiCache w1) (cache_key this u ps) = Some r"
    by (rule cache_get_entry[OF e]) (use ttl in auto)
  then have "cache_get (clock_get env2) (apiCache w1) (cache_key this u ps) \<noteq> None" by simp
  from makeRequest_again[OF first this] show ?thesis .
qed

lemma makeRequest_trace:
  assumes "makeRequest env this u ps no_options w = Some (res, w')"
  shows "case cache_get (clock_get env) (apiCache w) (cache_key this u ps) of
           Some c \<Rightarrow> res = Inr c \<and> w' = w
         | None \<Rightarrow>
             sent w' = sent w @ [\<lparr>http_method = ''get'', url = u, params = with_key this ps\<rparr>]
             \<and> (apiCache w' = apiCache w
                \<or> (\<exists>r. res = Inr r
                     \<and> apiCache w' = cache_set (clock_set env) (cache_key this u ps) r (apiCache w)))"
proof (cases "cache_get (clock_get env) (apiCache w) (cache_key this u ps)")
  case (Some c)
  with assms show ?thesis by (simp add: makeRequest_hit)
next
  case None
  show ?thesis
  proof (cases "waitForRateLimit (polls env) (rateLimiter w)")
    case N: None
    with None assms show ?thesis by (simp add: makeRequest_pending)
  next
    case (Some rl')
    with None assms show ?thesis
      by (auto simp: makeRequest_fetch split: AxiosOutcome.splits)
  qed
qed

lemma join_elem:
  "x \<in> set xs \<Longrightarrow> \<exists>pre post. join sep xs = pre @ x @ post"
proof (induction sep xs rule: join.induct)
  case (1 sep)
  then show ?case by simp
next
  case (2 sep y)
  then have "join sep [y] = [] @ x @ []" by simp
  then show ?case by blast
next
  case (3 sep a b bs)
  show ?case
  proof (cases "x = a")
    case True
    then have "join sep (a # b # bs) = [] @ x @ (sep @ join sep (b # bs))" by simp
    then show ?thesis by blast
  next
    case False
    with 3 obtain pre post where "join sep (b # bs) = pre @ x @ post" by auto
    then have "join sep (a # b # bs) = (a @ sep @ pre) @ x @ post" by simp
    then show ?thesis by blast
  qed
qed

lemma stringify_props_set_prop:
  "(json_quote k @ '':'' @ json_quote v) \<in> set (stringify_props (set_prop k (PStr v) ps))"
  by (induction ps) (auto split: option.splits)

lemma cache_key_contains_credential:
  "\<exists>pre post. cache_key this u ps =
      u @ '':'' @ pre @ json_quote ''key'' @ '':'' @ json_quote (apiKey this) @ post"
proof -
  from join_elem[OF stringify_props_set_prop, of "'',''" "''key''" "apiKey this" ps]
  obtain pre post where
    "join '','' (stringify_props (with_key this ps)) =
       pre @ (json_quote ''key'' @ '':'' @ json_quote (apiKey this)) @ post"
    unfolding with_key_def by blast
  then have "cache_key this u ps =
      u @ '':'' @ (''{'' @ pre) @ json_quote ''key'' @ '':'' @ json_quote (apiKey this) @ (post @ ''}'')"
    by (simp add: cache_key_def JSON_stringify_def)
  then show ?thesis by blast
qed

lemma join_Cons: "join sep (k # ks) = k @ concat (map ((@) sep) ks)"
  by (induction sep ks arbitrary: k rule: join.induct) simp_all

lemma with_display_limit_zero [simp]: "with_display_limit (Some 0) ps = with_display_limit None ps"
  by (simp add: with_display_limit_def)

lemma zero_limit_same_call:
  "limit_of op = Some 0 \<Longrightarrow> invoke env this op w = invoke env this (without_limit op) w"
  by (cases op) (simp_all add: op_defs)

lemma with_key_display_limit:
  "map_of (with_key this (with_display_limit limit ps)) ''display_limit'' =
     (case limit of
        None \<Rightarrow> map_of ps ''display_limit''
      | Some n \<Rightarrow> if n \<noteq> 0 then Some (PNum n) else map_of ps ''display_limit'')"
  by (simp add: with_key_def with_display_limit_def map_of_set_prop map_of_set_prop_other
           split: option.splits)

lemma makeRequest_new_requests:
  assumes "makeRequest env this u ps no_options w = Some (res, w')"
  shows "\<exists>new. sent w' = sent w @ new \<and> (\<forall>req\<in>set new. params req = with_key this ps)"
proof -
  from makeRequest_sent[OF assms]
  have "sent w' = sent w @ []
     \<or> sent w' = sent w @ [\<lparr>http_method = ''get'', url = u, params = with_key this ps\<rparr>]"
    by simp
  then show ?thesis
  proof
    assume "sent w' = sent w @ []"
    then show ?thesis by (intro exI[of _ "[]"]) simp
  next
    assume "sent w' = sent w @ [\<lparr>http_method = ''get'', url = u, params = with_key this ps\<rparr>]"
    then show ?thesis
      by (intro exI[of _ "[\<lparr>http_method = ''get'', url = u, params = with_key this ps\<rparr>]"]) simp
  qed
qed

lemma limit_op_shape:
  assumes "limit_of op = Some n"
  shows "\<exists>u ps. (\<forall>env w. invoke env this op w
                     = makeRequest env this u (with_display_limit (Some n) ps) no_options w)
           \<and> map_of ps ''display_limit'' = None"
  using assms
  by (cases op; simp add: op_defs del: with_display_limit_zero)
     (intro exI conjI allI, rule refl, simp)+

lemma limit_sent:
  assumes "limit_of op = Some n" and "invoke env this op w = Some (res, w')"
  shows "\<exists>new. sent w' = sent w @ new
     \<and> (\<forall>req\<in>set new. map_of (params req) ''display_limit''
           = (if n \<noteq> 0 then Some (PNum n) else None))"
proof -
  from limit_op_shape[OF assms(1)] obtain u ps
    where eq: "\<forall>env w. invoke env this op w
                 = makeRequest env this u (with_display_limit (Some n) ps) no_options w"
      and no: "map_of ps ''display_limit'' = None"
    by blast
  have dl: "map_of (with_key this (with_display_limit (Some n) ps)) ''display_limit''
              = (if n \<noteq> 0 then Some (PNum n) else None)"
    by (simp add: with_key_display_limit no del: with_display_limit_zero)
  from assms(2) eq
  have "makeRequest env this u (with_display_limit (Some n) ps) no_options w = Some (res, w')"
    by simp
  from makeRequest_new_requests[OF this] dl show ?thesis by auto
qed

lemma axios_default_resolved:
  "200 \<le> r_status r \<and> r_status r < 300 \<Longrightarrow> axios_default (HttpReply r) = Resolved r"
  by (simp add: axios_default_def)

lemma axios_default_rejected:
  "\<not> (200 \<le> r_status r \<and> r_status r < 300) \<Longrightarrow>
     axios_default (HttpReply r) =
       RejectedAxiosError (Some r) (''Request failed with status code '' @ show_int (r_status r))"
  by (simp add: axios_default_def)

lemma example_world_loaded:
  "load_module example_config = Inr (example_client, example_world)"
  by (simp add: load_module_def example_config_def example_client_def example_world_def
       RateLimiter_new_def SemrushApiClient_new_def)

lemmas ex_defs = example_client_def example_world_def example_env_def
lemmas eval_defs = makeRequest_def cache_get_def cache_set_def NodeCache_new_def
        checkRateLimit_eq axios_default_def show_int_def show_nat.simps error_of_def
        with_key_def cache_key_def SEMRUSH_API_BASE_URL_def TRENDS_API_BASE_URL_def Let_def
        no_options_def spread_options_def

subsection \<open>Outcome of a request\<close>

text \<open>
  C1. The claim fails. With the HTTP client's default status check a 404 answer whose body
  is plain text, not structured error data, makes the awaited call reject; \<^verbatim>\<open>makeRequest\<close>
  then throws a \<^verbatim>\<open>SemrushApiError\<close> with status 404 and the client's own message, and the
  cache stays empty.
\<close>

theorem non_2xx_succeeds_counterexample:
  "getApiUnitsBalance
     (example_env (HttpReply \<lparr>r_data = JStr ''Not Found'', r_status = 404, r_headers = []\<rparr>) 0)
     example_client example_world
   = Some (Inl \<lparr>message = ''Request failed with status code 404'', e_status = 404,
                response = Some (JStr ''Not Found'')\<rparr>,
           \<lparr>apiCache = NodeCache_new 300,
            rateLimiter = \<lparr>requestTimestamps = [0], rateLimit = 10\<rparr>,
            sent = [\<lparr>http_method = ''get'', url = ''https://api.semrush.com/'',
                     params = [(''type'', PStr ''api_units''), (''key'', PStr ''K'')]\<rparr>]\<rparr>)"
  by (simp add: getApiUnitsBalance_def ex_defs eval_defs)

text \<open>
  C1, as amended. Take a call that misses the cache and is admitted by the rate limiter.
  When the HTTP client's call resolves, status, headers and body are wrapped into an
  envelope, which is stored in the cache under the computed key and returned. When the call
  is rejected, with or without a response, \<^verbatim>\<open>makeRequest\<close> throws a \<^verbatim>\<open>SemrushApiError\<close> and
  the cache is left as it was. Under the client's default status check the first case is
  an answer with a status from 200 to 299; any other answer is an error that carries the
  answer's status (500 for a status of 0) and its body, whether or not the body holds
  structured error data.
\<close>

theorem makeRequest_outcomes:
  "cache_get (clock_get env) (apiCache w) (cache_key this u ps) = None
     \<and> waitForRateLimit (polls env) (rateLimiter w) = Some rl' \<longrightarrow>
   (\<forall>resp. axios env (spread_options \<lparr>http_method = ''get'', url = u, params = with_key this ps\<rparr>
               options) = Resolved resp \<longrightarrow>
      makeRequest env this u ps options w =
        Some (Inr \<lparr>data = r_data resp, status = r_status resp, headers = r_headers resp\<rparr>,
              \<lparr>apiCache = cache_set (clock_set env) (cache_key this u ps)
                  \<lparr>data = r_data resp, status = r_status resp, headers = r_headers resp\<rparr>
                  (apiCache w),
               rateLimiter = rl',
               sent = sent w @ [spread_options
                  \<lparr>http_method = ''get'', url = u, params = with_key this ps\<rparr> options]\<rparr>))
   \<and> (\<forall>resp msg. axios env (spread_options
               \<lparr>http_method = ''get'', url = u, params = with_key this ps\<rparr> options)
             \<in> {RejectedAxiosError resp msg, RejectedOther msg} \<longrightarrow>
      (\<exists>e w'. makeRequest env this u ps options w = Some (Inl e, w')
          \<and> apiCache w' = apiCache w))
   \<and> (\<forall>r. axios env (spread_options \<lparr>http_method = ''get'', url = u, params = with_key this ps\<rparr>
               options) = axios_default (HttpReply r) \<longrightarrow>
      (if 200 \<le> r_status r \<and> r_status r < 300
       then \<exists>w'. makeRequest env this u ps options w =
              Some (Inr \<lparr>data = r_data r, status = r_status r, headers = r_headers r\<rparr>, w')
            \<and> entries (apiCache w') (cache_key this u ps) =
                Some (\<lparr>data = r_data r, status = r_status r, headers = r_headers r\<rparr>,
                      if stdTTL (apiCache w) = 0 then 0
                      else clock_set env + stdTTL (apiCache w) * 1000)
       else \<exists>e w'. makeRequest env this u ps options w = Some (Inl e, w')
            \<and> e_status e = (if r_status r = 0 then 500 else r_status r)
            \<and> response e = Some (r_data r)
            \<and> apiCache w' = apiCache w))"
  (is "?miss \<and> ?adm \<longrightarrow> (\<forall>resp. ?res resp \<longrightarrow> ?R resp) \<and> (\<forall>resp msg. ?rej resp msg \<longrightarrow> ?E)
        \<and> (\<forall>r. ?dflt r \<longrightarrow> ?D r)")
proof (intro impI, elim conjE)
  assume miss: ?miss and adm: ?adm
  note f = makeRequest_fetch[OF miss adm, of options]
  show "(\<forall>resp. ?res resp \<longrightarrow> ?R resp) \<and> (\<forall>resp msg. ?rej resp msg \<longrightarrow> ?E)
        \<and> (\<forall>r. ?dflt r \<longrightarrow> ?D r)"
  proof (intro conjI allI impI)
    fix resp
    assume "?res resp"
    then show "?R resp" by (simp add: f)
  next
    fix resp msg
    assume "?rej resp msg"
    then show ?E by (auto simp: f)
  next
    fix r
    assume a: "?dflt r"
    show "?D r"
    proof (cases "200 \<le> r_status r \<and> r_status r < 300")
      case True
      then show ?thesis
        using a by (simp add: f axios_default_resolved cache_set_def)
    next
      case False
      then show ?thesis
        using a by (simp add: f axios_default_rejected error_of_def Let_def)
    qed
  qed
qed

theorem makeRequest_outcomes_witness:
  "getApiUnitsBalance
     (example_env (HttpReply \<lparr>r_data = JStr ''1234'', r_status = 200, r_headers = []\<rparr>) 0)
     example_client example_world
   = Some (Inr \<lparr>data = JStr ''1234'', status = 200, headers = []\<rparr>,
           \<lparr>apiCache = cache_set 50
              (cache_key example_client SEMRUSH_API_BASE_URL [(''type'', PStr ''api_units'')])
              \<lparr>data = JStr ''1234'', status = 200, headers = []\<rparr> (NodeCache_new 300),
            rateLimiter = \<lparr>requestTimestamps = [0], rateLimit = 10\<rparr>,
            sent = [\<lparr>http_method = ''get'', url = ''https://api.semrush.com/'',
                     params = [(''type'', PStr ''api_units''), (''key'', PStr ''K'')]\<rparr>]\<rparr>)
   \<and> (\<exists>e w'. getApiUnitsBalance
         (example_env (HttpReply \<lparr>r_data = JStr ''Not Found'', r_status = 404, r_headers = []\<rparr>) 0)
         example_client example_world = Some (Inl e, w')
       \<and> e_status e = 404 \<and> response e = Some (JStr ''Not Found'')
       \<and> apiCache w' = NodeCache_new 300)
   \<and> (\<exists>e w'. getApiUnitsBalance (example_env (NoReply ''getaddrinfo ENOTFOUND'') 0)
         example_client example_world = Some (Inl e, w')
       \<and> apiCache w' = NodeCache_new 300)"
  using
    makeRequest_outcomes
      [where env = "example_env
           (HttpReply \<lparr>r_data = JStr ''1234'', r_status = 200, r_headers = []\<rparr>) 0"
         and this = example_client and w = example_world and u = SEMRUSH_API_BASE_URL
         and ps = "[(''type'', PStr ''api_units'')]" and options = no_options
         and rl' = "\<lparr>requestTimestamps = [0], rateLimit = 10\<rparr>"]
    makeRequest_outcomes
      [where env = "example_env
           (HttpReply \<lparr>r_data = JStr ''Not Found'', r_status = 404, r_headers = []\<rparr>) 0"
         and this = example_client and w = example_world and u = SEMRUSH_API_BASE_URL
         and ps = "[(''type'', PStr ''api_units'')]" and options = no_options
         and rl' = "\<lparr>requestTimestamps = [0], rateLimit = 10\<rparr>"]
    makeRequest_outcomes
      [where env = "example_env (NoReply ''getaddrinfo ENOTFOUND'') 0"
         and this = example_client and w = example_world and u = SEMRUSH_API_BASE_URL
         and ps = "[(''type'', PStr ''api_units'')]" and options = no_options
         and rl' = "\<lparr>requestTimestamps = [0], rateLimit = 10\<rparr>"]
  by (simp add: getApiUnitsBalance_def ex_defs eval_defs)

subsection \<open>The credential\<close>

text \<open>
  C3. When no credential is configured (the argument is left out and the configured key is
  absent or empty, or an empty key is passed), the constructor throws. It is a function of
  the configuration alone, with no access to the network. A client that was constructed has
  a key that is not empty, the one passed or else the configured one. Loading the module
  constructs the exported client, so without a configured key the load fails and no client
  exists to make a request; when it succeeds nothing has been sent.
\<close>

theorem client_requires_key:
  "((case arg of None \<Rightarrow> SEMRUSH_API_KEY config | Some k \<Rightarrow> Some k) = None
      \<or> (case arg of None \<Rightarrow> SEMRUSH_API_KEY config | Some k \<Rightarrow> Some k) = Some []
     \<longrightarrow> SemrushApiClient_new config arg = Inl ''Semrush API key is required'')
   \<and> (SemrushApiClient_new config arg = Inr this \<longrightarrow>
        apiKey this \<noteq> []
        \<and> (case arg of None \<Rightarrow> SEMRUSH_API_KEY config | Some k \<Rightarrow> Some k) = Some (apiKey this))
   \<and> (SEMRUSH_API_KEY config = None \<or> SEMRUSH_API_KEY config = Some []
     \<longrightarrow> load_module config = Inl ''Semrush API key is required'')
   \<and> (load_module config = Inr (this, w) \<longrightarrow>
        SEMRUSH_API_KEY config = Some (apiKey this) \<and> apiKey this \<noteq> [] \<and> sent w = [])"
  by (auto simp: SemrushApiClient_new_def load_module_def RateLimiter_new_def Let_def
         split: option.splits if_splits)

theorem client_requires_key_witness:
  "SemrushApiClient_new \<lparr>SEMRUSH_API_KEY = None, API_CACHE_TTL_SECONDS = 300,
       API_RATE_LIMIT_PER_SECOND = 10\<rparr> None = Inl ''Semrush API key is required''
   \<and> load_module \<lparr>SEMRUSH_API_KEY = None, API_CACHE_TTL_SECONDS = 300,
       API_RATE_LIMIT_PER_SECOND = 10\<rparr> = Inl ''Semrush API key is required''
   \<and> SemrushApiClient_new \<lparr>SEMRUSH_API_KEY = Some ''abc'', API_CACHE_TTL_SECONDS = 300,
       API_RATE_LIMIT_PER_SECOND = 10\<rparr> None = Inr \<lparr>apiKey = ''abc''\<rparr>
   \<and> load_module \<lparr>SEMRUSH_API_KEY = Some ''abc'', API_CACHE_TTL_SECONDS = 300,
       API_RATE_LIMIT_PER_SECOND = 10\<rparr>
      = Inr (\<lparr>apiKey = ''abc''\<rparr>,
             \<lparr>apiCache = NodeCache_new 300,
              rateLimiter = \<lparr>requestTimestamps = [], rateLimit = 10\<rparr>, sent = []\<rparr>)"
  using client_requires_key
    [where arg = None and config = "\<lparr>SEMRUSH_API_KEY = None, API_CACHE_TTL_SECONDS = 300,
       API_RATE_LIMIT_PER_SECOND = 10\<rparr>"]
    client_requires_key
    [where arg = None and config = "\<lparr>SEMRUSH_API_KEY = Some ''abc'', API_CACHE_TTL_SECONDS = 300,
       API_RATE_LIMIT_PER_SECOND = 10\<rparr>" and this = "\<lparr>apiKey = ''abc''\<rparr>"
       and w = "\<lparr>apiCache = NodeCache_new 300,
              rateLimiter = \<lparr>requestTimestamps = [], rateLimit = 10\<rparr>, sent = []\<rparr>"]
  by (simp add: SemrushApiClient_new_def load_module_def RateLimiter_new_def)

text \<open>
  C4. Every operation is a call of \<^verbatim>\<open>makeRequest\<close> with some endpoint and parameters and no
  options. In such a call the parameter set with the credential added maps \<^verbatim>\<open>key\<close> to the
  configured key, and its serialisation contains the quoted key. The cache is read under
  the endpoint, a colon and that serialisation: a hit there is the result and changes
  nothing; on a miss exactly one request goes out, a GET to the endpoint with the parameter
  set including the key, and a result that is stored is stored under the same cache key.
\<close>

theorem credential_in_every_request:
  "(\<exists>u' ps'. \<forall>env w. invoke env this op w = makeRequest env this u' ps' no_options w)
   \<and> map_of (with_key this ps) ''key'' = Some (PStr (apiKey this))
   \<and> (\<exists>pre post. JSON_stringify (with_key this ps) =
         pre @ json_quote ''key'' @ '':'' @ json_quote (apiKey this) @ post)
   \<and> (\<forall>res w'. makeRequest env this u ps no_options w = Some (res, w') \<longrightarrow>
        (case cache_get (clock_get env) (apiCache w)
                (u @ '':'' @ JSON_stringify (with_key this ps)) of
           Some c \<Rightarrow> res = Inr c \<and> w' = w
         | None \<Rightarrow>
             sent w' = sent w @ [\<lparr>http_method = ''get'', url = u, params = with_key this ps\<rparr>]
             \<and> (apiCache w' = apiCache w
                \<or> (\<exists>r. res = Inr r
                     \<and> apiCache w' = cache_set (clock_set env)
                          (u @ '':'' @ JSON_stringify (with_key this ps)) r (apiCache w)))))"
  (is "?I \<and> ?K \<and> ?C \<and> ?T")
proof (intro conjI)
  show ?I by (rule invoke_makeRequest)
  show ?K by (simp add: with_key_def map_of_set_prop)
  show ?C using cache_key_contains_credential[of this u ps] by (simp add: cache_key_def)
  show ?T using makeRequest_trace[of env this u ps w, unfolded cache_key_def] by blast
qed

theorem credential_in_every_request_witness:
  \<open>invoke
       (example_env (HttpReply \<lparr>r_data = JStr ''1234'', r_status = 200, r_headers = []\<rparr>) 0)
       example_client GetApiUnitsBalance example_world
     = makeRequest
       (example_env (HttpReply \<lparr>r_data = JStr ''1234'', r_status = 200, r_headers = []\<rparr>) 0)
       example_client SEMRUSH_API_BASE_URL [(''type'', PStr ''api_units'')] no_options
       example_world
   \<and> map_of (with_key example_client [(''type'', PStr ''api_units'')]) ''key'' = Some (PStr ''K'')
   \<and> SEMRUSH_API_BASE_URL @ '':''
        @ JSON_stringify (with_key example_client [(''type'', PStr ''api_units'')])
      = ''https://api.semrush.com/:{"type":"api_units","key":"K"}''
   \<and> makeRequest
       (example_env (HttpReply \<lparr>r_data = JStr ''1234'', r_status = 200, r_headers = []\<rparr>) 0)
       example_client SEMRUSH_API_BASE_URL [(''type'', PStr ''api_units'')] no_options
       example_world
     = Some (Inr \<lparr>data = JStr ''1234'', status = 200, headers = []\<rparr>,
         \<lparr>apiCache = cache_set 50 ''https://api.semrush.com/:{"type":"api_units","key":"K"}''
            \<lparr>data = JStr ''1234'', status = 200, headers = []\<rparr> (NodeCache_new 300),
          rateLimiter = \<lparr>requestTimestamps = [0], rateLimit = 10\<rparr>,
          sent = [\<lparr>http_method = ''get'', url = ''https://api.semrush.com/'',
                   params = [(''type'', PStr ''api_units''), (''key'', PStr ''K'')]\<rparr>]\<rparr>)\<close>
  using credential_in_every_request
    [where this = example_client and op = GetApiUnitsBalance and u = SEMRUSH_API_BASE_URL
       and ps = "[(''type'', PStr ''api_units'')]"
       and env = "example_env
          (HttpReply \<lparr>r_data = JStr ''1234'', r_status = 200, r_headers = []\<rparr>) 0"
       and w = example_world]
  by (simp add: getApiUnitsBalance_def ex_defs eval_defs JSON_stringify_def json_quote_def
        json_escape_def)

subsection \<open>Caching\<close>

text \<open>
  C6. The two calls are made one after the other: the second starts in the state the first
  has left. When a call has returned an envelope and the cache entry under its key has not
  expired at the time of a second call with the same endpoint and parameters, the second call
  returns the same envelope and leaves the state as it is: the log of requests sent does not
  grow, and the rate limiter is neither read nor changed, whatever its state \<open>rl\<close> and
  whatever the second call's clock readings for polling. For an operation whose first
  invocation fetched its answer from the server, the entry is alive whenever the second
  invocation starts no later than \<^verbatim>\<open>stdTTL\<close> seconds after the answer was stored (or at any
  time when \<^verbatim>\<open>stdTTL\<close> is 0).
\<close>

theorem cache_hit_repeats:
  "(makeRequest env1 this u ps options w = Some (Inr r, w1)
      \<and> cache_get (clock_get env2) (apiCache w1) (cache_key this u ps) \<noteq> None \<longrightarrow>
    makeRequest env2 this u ps options (w1\<lparr>rateLimiter := rl\<rparr>)
      = Some (Inr r, w1\<lparr>rateLimiter := rl\<rparr>))
   \<and> (invoke env1 this op w = Some (Inr r, w1) \<and> sent w1 \<noteq> sent w
      \<and> (stdTTL (apiCache w) = 0
          \<or> clock_get env2 \<le> clock_set env1 + stdTTL (apiCache w) * 1000) \<longrightarrow>
    invoke env2 this op (w1\<lparr>rateLimiter := rl\<rparr>) = Some (Inr r, w1\<lparr>rateLimiter := rl\<rparr>))"
proof (intro conjI impI)
  assume "makeRequest env1 this u ps options w = Some (Inr r, w1)
      \<and> cache_get (clock_get env2) (apiCache w1) (cache_key this u ps) \<noteq> None"
  then show "makeRequest env2 this u ps options (w1\<lparr>rateLimiter := rl\<rparr>)
      = Some (Inr r, w1\<lparr>rateLimiter := rl\<rparr>)"
    using makeRequest_again by blast
next
  assume h: "invoke env1 this op w = Some (Inr r, w1) \<and> sent w1 \<noteq> sent w
      \<and> (stdTTL (apiCache w) = 0
          \<or> clock_get env2 \<le> clock_set env1 + stdTTL (apiCache w) * 1000)"
  obtain u' ps' where eq: "\<And>env w. invoke env this op w = makeRequest env this u' ps' no_options w"
    using invoke_makeRequest by blast
  from h have "makeRequest env1 this u' ps' no_options w = Some (Inr r, w1)"
    by (simp add: eq)
  from makeRequest_again_ttl[OF this] h
  show "invoke env2 this op (w1\<lparr>rateLimiter := rl\<rparr>) = Some (Inr r, w1\<lparr>rateLimiter := rl\<rparr>)"
    by (simp add: eq)
qed

theorem cache_hit_repeats_witness:
  "invoke (example_env (HttpReply \<lparr>r_data = JStr ''Ph;Nq'', r_status = 200, r_headers = []\<rparr>) 1000)
      example_client (GetKeywordOverviewSingleDb ''seo'' ''us'') example_world
    = Some (Inr \<lparr>data = JStr ''Ph;Nq'', status = 200, headers = []\<rparr>,
       \<lparr>apiCache = cache_set 1050
          (cache_key example_client SEMRUSH_API_BASE_URL
             [(''type'', PStr ''phrase_this''), (''phrase'', PStr ''seo''),
              (''database'', PStr ''us''), (''export_columns'', PStr ''Ph,Nq,Cp,Co,Nr,Td,In,Kd'')])
          \<lparr>data = JStr ''Ph;Nq'', status = 200, headers = []\<rparr> (NodeCache_new 300),
        rateLimiter = \<lparr>requestTimestamps = [1000], rateLimit = 10\<rparr>,
        sent = [\<lparr>http_method = ''get'', url = ''https://api.semrush.com/'',
                 params = [(''type'', PStr ''phrase_this''), (''phrase'', PStr ''seo''),
                   (''database'', PStr ''us''),
                   (''export_columns'', PStr ''Ph,Nq,Cp,Co,Nr,Td,In,Kd''),
                   (''key'', PStr ''K'')]\<rparr>]\<rparr>)
   \<and> invoke (example_env (NoReply ''offline'') 301050)
      example_client (GetKeywordOverviewSingleDb ''seo'' ''us'')
       \<lparr>apiCache = cache_set 1050
          (cache_key example_client SEMRUSH_API_BASE_URL
             [(''type'', PStr ''phrase_this''), (''phrase'', PStr ''seo''),
              (''database'', PStr ''us''), (''export_columns'', PStr ''Ph,Nq,Cp,Co,Nr,Td,In,Kd'')])
          \<lparr>data = JStr ''Ph;Nq'', status = 200, headers = []\<rparr> (NodeCache_new 300),
        rateLimiter = \<lparr>requestTimestamps = replicate 10 1000, rateLimit = 10\<rparr>,
        sent = [\<lparr>http_method = ''get'', url = ''https://api.semrush.com/'',
                 params = [(''type'', PStr ''phrase_this''), (''phrase'', PStr ''seo''),
                   (''database'', PStr ''us''),
                   (''export_columns'', PStr ''Ph,Nq,Cp,Co,Nr,Td,In,Kd''),
                   (''key'', PStr ''K'')]\<rparr>]\<rparr>
    = Some (Inr \<lparr>data = JStr ''Ph;Nq'', status = 200, headers = []\<rparr>,
       \<lparr>apiCache = cache_set 1050
          (cache_key example_client SEMRUSH_API_BASE_URL
             [(''type'', PStr ''phrase_this''), (''phrase'', PStr ''seo''),
              (''database'', PStr ''us''), (''export_columns'', PStr ''Ph,Nq,Cp,Co,Nr,Td,In,Kd'')])
          \<lparr>data = JStr ''Ph;Nq'', status = 200, headers = []\<rparr> (NodeCache_new 300),
        rateLimiter = \<lparr>requestTimestamps = replicate 10 1000, rateLimit = 10\<rparr>,
        sent = [\<lparr>http_method = ''get'', url = ''https://api.semrush.com/'',
                 params = [(''type'', PStr ''phrase_this''), (''phrase'', PStr ''seo''),
                   (''database'', PStr ''us''),
                   (''export_columns'', PStr ''Ph,Nq,Cp,Co,Nr,Td,In,Kd''),
                   (''key'', PStr ''K'')]\<rparr>]\<rparr>)"
  using cache_hit_repeats
    [where ?env1.0 = "example_env
          (HttpReply \<lparr>r_data = JStr ''Ph;Nq'', r_status = 200, r_headers = []\<rparr>) 1000"
       and this = example_client and op = "GetKeywordOverviewSingleDb ''seo'' ''us''"
       and u = SEMRUSH_API_BASE_URL
       and ps = "[(''type'', PStr ''phrase_this''), (''phrase'', PStr ''seo''),
              (''database'', PStr ''us''), (''export_columns'', PStr ''Ph,Nq,Cp,Co,Nr,Td,In,Kd'')]"
       and options = no_options
       and w = example_world
       and r = "\<lparr>data = JStr ''Ph;Nq'', status = 200, headers = []\<rparr>"
       and ?w1.0 = "\<lparr>apiCache = cache_set 1050
          (cache_key example_client SEMRUSH_API_BASE_URL
             [(''type'', PStr ''phrase_this''), (''phrase'', PStr ''seo''),
              (''database'', PStr ''us''), (''export_columns'', PStr ''Ph,Nq,Cp,Co,Nr,Td,In,Kd'')])
          \<lparr>data = JStr ''Ph;Nq'', status = 200, headers = []\<rparr> (NodeCache_new 300),
        rateLimiter = \<lparr>requestTimestamps = [1000], rateLimit = 10\<rparr>,
        sent = [\<lparr>http_method = ''get'', url = ''https://api.semrush.com/'',
                 params = [(''type'', PStr ''phrase_this''), (''phrase'', PStr ''seo''),
                   (''database'', PStr ''us''),
                   (''export_columns'', PStr ''Ph,Nq,Cp,Co,Nr,Td,In,Kd''),
                   (''key'', PStr ''K'')]\<rparr>]\<rparr>"
       and ?env2.0 = "example_env (NoReply ''offline'') 301050"
       and rl = "\<lparr>requestTimestamps = replicate 10 1000, rateLimit = 10\<rparr>"]
  by (simp add: getKeywordOverviewSingleDb_def ex_defs eval_defs)

text \<open>
  C7. When \<^verbatim>\<open>makeRequest\<close> throws, the cache is exactly as before the call and holds no live
  entry under the call's key. A later call with the same endpoint and parameters therefore
  misses the cache again: it either is still waiting for the rate limiter or has sent a new
  request to the server.
\<close>

theorem errors_not_cached:
  "makeRequest env this u ps options w = Some (Inl e, w') \<longrightarrow>
     apiCache w' = apiCache w
     \<and> cache_get (clock_get env) (apiCache w') (cache_key this u ps) = None
     \<and> (clock_get env \<le> clock_get env2 \<longrightarrow>
          makeRequest env2 this u ps options w' = None
          \<or> (\<exists>res w''. makeRequest env2 this u ps options w' = Some (res, w'')
                \<and> sent w'' = sent w' @ [spread_options
                     \<lparr>http_method = ''get'', url = u, params = with_key this ps\<rparr> options]))"
proof (intro impI conjI)
  assume a: "makeRequest env this u ps options w = Some (Inl e, w')"
  note c = makeRequest_error_cases[OF a]
  show "apiCache w' = apiCache w" using c by simp
  show miss: "cache_get (clock_get env) (apiCache w') (cache_key this u ps) = None" using c by simp
  assume le: "clock_get env \<le> clock_get env2"
  have miss2: "cache_get (clock_get env2) (apiCache w') (cache_key this u ps) = None"
    by (rule cache_get_mono[OF miss le])
  show "makeRequest env2 this u ps options w' = None
          \<or> (\<exists>res w''. makeRequest env2 this u ps options w' = Some (res, w'')
                \<and> sent w'' = sent w' @ [spread_options
                     \<lparr>http_method = ''get'', url = u, params = with_key this ps\<rparr> options])"
  proof (cases "makeRequest env2 this u ps options w'")
    case None
    then show ?thesis by simp
  next
    case (Some x)
    obtain res w'' where "x = (res, w'')" by (cases x)
    with Some makeRequest_miss_sent[OF miss2] show ?thesis by simp
  qed
qed

theorem errors_not_cached_witness:
  "getApiUnitsBalance (example_env (NoReply ''getaddrinfo ENOTFOUND'') 0)
       example_client example_world
     = Some (Inl \<lparr>message = ''getaddrinfo ENOTFOUND'', e_status = 500, response = None\<rparr>,
             example_world\<lparr>rateLimiter := \<lparr>requestTimestamps = [0], rateLimit = 10\<rparr>,
               sent := [\<lparr>http_method = ''get'', url = ''https://api.semrush.com/'',
                     params = [(''type'', PStr ''api_units''), (''key'', PStr ''K'')]\<rparr>]\<rparr>)
   \<and> map_option (sent \<circ> snd)
       (getApiUnitsBalance
         (example_env (HttpReply \<lparr>r_data = JStr ''1234'', r_status = 200, r_headers = []\<rparr>) 7)
         example_client
         (example_world\<lparr>rateLimiter := \<lparr>requestTimestamps = [0], rateLimit = 10\<rparr>,
               sent := [\<lparr>http_method = ''get'', url = ''https://api.semrush.com/'',
                     params = [(''type'', PStr ''api_units''), (''key'', PStr ''K'')]\<rparr>]\<rparr>))
     = Some [\<lparr>http_method = ''get'', url = ''https://api.semrush.com/'',
                     params = [(''type'', PStr ''api_units''), (''key'', PStr ''K'')]\<rparr>,
             \<lparr>http_method = ''get'', url = ''https://api.semrush.com/'',
                     params = [(''type'', PStr ''api_units''), (''key'', PStr ''K'')]\<rparr>]"
  using errors_not_cached
      [where env = "example_env (NoReply ''getaddrinfo ENOTFOUND'') 0"
         and this = example_client and w = example_world and u = SEMRUSH_API_BASE_URL
         and ps = "[(''type'', PStr ''api_units'')]" and options = no_options
         and e = "\<lparr>message = ''getaddrinfo ENOTFOUND'', e_status = 500, response = None\<rparr>"
         and w' = "example_world\<lparr>rateLimiter := \<lparr>requestTimestamps = [0], rateLimit = 10\<rparr>,
               sent := [\<lparr>http_method = ''get'', url = ''https://api.semrush.com/'',
                     params = [(''type'', PStr ''api_units''), (''key'', PStr ''K'')]\<rparr>]\<rparr>"
         and ?env2.0 = "example_env
           (HttpReply \<lparr>r_data = JStr ''1234'', r_status = 200, r_headers = []\<rparr>) 7"]
  by (simp add: getApiUnitsBalance_def ex_defs eval_defs)

subsection \<open>Errors\<close>

text \<open>
  C8. When the HTTP client rejects with an \<^verbatim>\<open>AxiosError\<close>, the call throws a
  \<^verbatim>\<open>SemrushApiError\<close> that carries the response body as its payload. Its message is the
  nested field \<^verbatim>\<open>error.message\<close> of the body when that is a non-empty string, and the
  \<^verbatim>\<open>AxiosError\<close>'s own message when the body has no such field or the field is falsy. Its status is the status of
  the response when there is one (and it is not 0), and 500 when there is no response, in
  which case the message is the underlying one. An answer 403 with the body
  \<^verbatim>\<open>{error: {message: "Access denied"}}\<close> gives the message \<^verbatim>\<open>Access denied\<close> and status 403;
  a refused connection gives status 500.
\<close>

theorem error_normalisation:
  "cache_get (clock_get env) (apiCache w) (cache_key this u ps) = None
     \<and> waitForRateLimit (polls env) (rateLimiter w) = Some rl'
     \<and> axios env (spread_options \<lparr>http_method = ''get'', url = u, params = with_key this ps\<rparr>
          options) = RejectedAxiosError resp msg \<longrightarrow>
   (\<exists>e w'. makeRequest env this u ps options w = Some (Inl e, w')
      \<and> response e = map_option r_data resp
      \<and> (\<forall>m. get_prop (get_prop (map_option r_data resp) ''error'') ''message'' = Some (JStr m)
              \<and> m \<noteq> [] \<longrightarrow> message e = m)
      \<and> (\<forall>v. get_prop (get_prop (map_option r_data resp) ''error'') ''message'' = Some v
              \<and> \<not> truthy v \<longrightarrow> message e = msg)
      \<and> (get_prop (get_prop (map_option r_data resp) ''error'') ''message'' = None \<longrightarrow>
            message e = msg)
      \<and> (\<forall>r. resp = Some r \<and> r_status r \<noteq> 0 \<longrightarrow> e_status e = r_status r)
      \<and> (resp = None \<longrightarrow> e_status e = 500 \<and> message e = msg))"
  (is "?miss \<and> ?adm \<and> ?rej \<longrightarrow> ?C")
proof (intro impI, elim conjE)
  assume miss: ?miss and adm: ?adm and rej: ?rej
  let ?w' = "\<lparr>apiCache = apiCache w, rateLimiter = rl',
             sent = sent w @ [spread_options
               \<lparr>http_method = ''get'', url = u, params = with_key this ps\<rparr> options]\<rparr>"
  have m: "makeRequest env this u ps options w = Some (Inl (error_of resp msg), ?w')"
    by (simp add: makeRequest_fetch[OF miss adm] rej)
  show ?C
    by (rule exI[of _ "error_of resp msg"], rule exI[of _ ?w'])
       (simp add: m error_of_def Let_def)
qed

theorem error_normalisation_witness:
  "getApiUnitsBalance
     (example_env (HttpReply
         \<lparr>r_data = JObj [(''error'', JObj [(''message'', JStr ''Access denied'')])],
          r_status = 403, r_headers = []\<rparr>) 0)
     example_client example_world
   = Some (Inl \<lparr>message = ''Access denied'', e_status = 403,
                response = Some (JObj [(''error'', JObj [(''message'', JStr ''Access denied'')])])\<rparr>,
           \<lparr>apiCache = NodeCache_new 300,
            rateLimiter = \<lparr>requestTimestamps = [0], rateLimit = 10\<rparr>,
            sent = [\<lparr>http_method = ''get'', url = ''https://api.semrush.com/'',
                     params = [(''type'', PStr ''api_units''), (''key'', PStr ''K'')]\<rparr>]\<rparr>)
   \<and> getApiUnitsBalance (example_env (NoReply ''connect ECONNREFUSED'') 0)
       example_client example_world
   = Some (Inl \<lparr>message = ''connect ECONNREFUSED'', e_status = 500, response = None\<rparr>,
           \<lparr>apiCache = NodeCache_new 300,
            rateLimiter = \<lparr>requestTimestamps = [0], rateLimit = 10\<rparr>,
            sent = [\<lparr>http_method = ''get'', url = ''https://api.semrush.com/'',
                     params = [(''type'', PStr ''api_units''), (''key'', PStr ''K'')]\<rparr>]\<rparr>)"
  using error_normalisation
    [where env = "example_env (HttpReply
         \<lparr>r_data = JObj [(''error'', JObj [(''message'', JStr ''Access denied'')])],
          r_status = 403, r_headers = []\<rparr>) 0"
      and this = example_client and u = SEMRUSH_API_BASE_URL
      and ps = "[(''type'', PStr ''api_units'')]" and options = no_options
      and w = example_world
      and rl' = "\<lparr>requestTimestamps = [0], rateLimit = 10\<rparr>"
      and resp = "Some \<lparr>r_data = JObj [(''error'', JObj [(''message'', JStr ''Access denied'')])],
          r_status = 403, r_headers = []\<rparr>"
      and msg = "''Request failed with status code 403''"]
    error_normalisation
    [where env = "example_env (NoReply ''connect ECONNREFUSED'') 0"
      and this = example_client and u = SEMRUSH_API_BASE_URL
      and ps = "[(''type'', PStr ''api_units'')]" and options = no_options
      and w = example_world
      and rl' = "\<lparr>requestTimestamps = [0], rateLimit = 10\<rparr>"
      and resp = None and msg = "''connect ECONNREFUSED''"]
  by (simp add: getApiUnitsBalance_def ex_defs eval_defs)

subsection \<open>Parameters of the operations\<close>

text \<open>
  C9. A request sent by \<^verbatim>\<open>getBatchKeywordOverview\<close> or \<^verbatim>\<open>getKeywordDifficulty\<close> carries
  \<^verbatim>\<open>phrase\<close> as the keywords joined by semicolons, and one sent by \<^verbatim>\<open>getTrafficSummary\<close>
  carries \<^verbatim>\<open>domains\<close> as the domains joined by commas; a call answered from the cache sends
  nothing. Joining puts the separator before every element but the first.
\<close>

theorem batch_serialization:
  "(\<forall>res w'. getBatchKeywordOverview env this keywords database w = Some (res, w') \<longrightarrow>
      sent w' = sent w
      \<or> sent w' = sent w @
           [\<lparr>http_method = ''get'', url = ''https://api.semrush.com/'',
             params = [(''type'', PStr ''phrase_these''),
                       (''phrase'', PStr (join '';'' keywords)),
                       (''database'', PStr database),
                       (''export_columns'', PStr ''Ph,Nq,Cp,Co,Nr,Td,In,Kd''),
                       (''key'', PStr (apiKey this))]\<rparr>])
   \<and> (\<forall>res w'. getKeywordDifficulty env this keywords database w = Some (res, w') \<longrightarrow>
      sent w' = sent w
      \<or> sent w' = sent w @
           [\<lparr>http_method = ''get'', url = ''https://api.semrush.com/'',
             params = [(''type'', PStr ''phrase_kdi''),
                       (''phrase'', PStr (join '';'' keywords)),
                       (''database'', PStr database),
                       (''export_columns'', PStr ''Ph,Kd''),
                       (''key'', PStr (apiKey this))]\<rparr>])
   \<and> (\<forall>res w'. getTrafficSummary env this domains country w = Some (res, w') \<longrightarrow>
      sent w' = sent w
      \<or> sent w' = sent w @
           [\<lparr>http_method = ''get'', url = ''https://api.semrush.com/analytics/ta/summary'',
             params = [(''domains'', PStr (join '','' domains)),
                       (''country'', PStr (or_us country)),
                       (''date'', PStr ''all''),
                       (''key'', PStr (apiKey this))]\<rparr>])
   \<and> join sep [] = []
   \<and> join sep (k # ks) = k @ concat (map ((@) sep) ks)"
  (is "?B \<and> ?D \<and> ?T \<and> ?J0 \<and> ?J1")
proof (intro conjI)
  show ?B
  proof (intro allI impI)
    fix res w'
    assume "getBatchKeywordOverview env this keywords database w = Some (res, w')"
    from makeRequest_sent[OF this[unfolded getBatchKeywordOverview_def]]
    show "sent w' = sent w
      \<or> sent w' = sent w @
           [\<lparr>http_method = ''get'', url = ''https://api.semrush.com/'',
             params = [(''type'', PStr ''phrase_these''),
                       (''phrase'', PStr (join '';'' keywords)),
                       (''database'', PStr database),
                       (''export_columns'', PStr ''Ph,Nq,Cp,Co,Nr,Td,In,Kd''),
                       (''key'', PStr (apiKey this))]\<rparr>]"
      by (simp add: with_key_def SEMRUSH_API_BASE_URL_def)
  qed
  show ?D
  proof (intro allI impI)
    fix res w'
    assume "getKeywordDifficulty env this keywords database w = Some (res, w')"
    from makeRequest_sent[OF this[unfolded getKeywordDifficulty_def]]
    show "sent w' = sent w
      \<or> sent w' = sent w @
           [\<lparr>http_method = ''get'', url = ''https://api.semrush.com/'',
             params = [(''type'', PStr ''phrase_kdi''),
                       (''phrase'', PStr (join '';'' keywords)),
                       (''database'', PStr database),
                       (''export_columns'', PStr ''Ph,Kd''),
                       (''key'', PStr (apiKey this))]\<rparr>]"
      by (simp add: with_key_def SEMRUSH_API_BASE_URL_def)
  qed
  show ?T
  proof (intro allI impI)
    fix res w'
    assume "getTrafficSummary env this domains country w = Some (res, w')"
    from makeRequest_sent[OF this[unfolded getTrafficSummary_def]]
    show "sent w' = sent w
      \<or> sent w' = sent w @
           [\<lparr>http_method = ''get'', url = ''https://api.semrush.com/analytics/ta/summary'',
             params = [(''domains'', PStr (join '','' domains)),
                       (''country'', PStr (or_us country)),
                       (''date'', PStr ''all''),
                       (''key'', PStr (apiKey this))]\<rparr>]"
      by (simp add: with_key_def TRENDS_API_BASE_URL_def)
  qed
  show ?J0 by simp
  show ?J1 by (rule join_Cons)
qed

theorem batch_serialization_witness:
  "map_option (sent \<circ> snd)
     (getBatchKeywordOverview
        (example_env (HttpReply \<lparr>r_data = JStr ''Ph;Nq'', r_status = 200, r_headers = []\<rparr>) 0)
        example_client [''a'', ''b'', ''c''] ''uk'' example_world)
     = Some [\<lparr>http_method = ''get'', url = ''https://api.semrush.com/'',
              params = [(''type'', PStr ''phrase_these''), (''phrase'', PStr ''a;b;c''),
                        (''database'', PStr ''uk''),
                        (''export_columns'', PStr ''Ph,Nq,Cp,Co,Nr,Td,In,Kd''),
                        (''key'', PStr ''K'')]\<rparr>]
   \<and> map_option (sent \<circ> snd)
     (getKeywordDifficulty
        (example_env (HttpReply \<lparr>r_data = JStr ''Ph;Nq'', r_status = 200, r_headers = []\<rparr>) 0)
        example_client [''a'', ''b'', ''c''] ''uk'' example_world)
     = Some [\<lparr>http_method = ''get'', url = ''https://api.semrush.com/'',
              params = [(''type'', PStr ''phrase_kdi''), (''phrase'', PStr ''a;b;c''),
                        (''database'', PStr ''uk''), (''export_columns'', PStr ''Ph,Kd''),
                        (''key'', PStr ''K'')]\<rparr>]
   \<and> map_option (sent \<circ> snd)
     (getTrafficSummary
        (example_env (HttpReply \<lparr>r_data = JStr ''Ph;Nq'', r_status = 200, r_headers = []\<rparr>) 0)
        example_client [''a.com'', ''b.org''] None example_world)
     = Some [\<lparr>http_method = ''get'', url = ''https://api.semrush.com/analytics/ta/summary'',
              params = [(''domains'', PStr ''a.com,b.org''), (''country'', PStr ''us''),
                        (''date'', PStr ''all''), (''key'', PStr ''K'')]\<rparr>]"
  using
    batch_serialization
      [where env = "example_env
           (HttpReply \<lparr>r_data = JStr ''Ph;Nq'', r_status = 200, r_headers = []\<rparr>) 0"
         and this = example_client and ?keywords = "[''a'', ''b'', ''c'']"
         and database = "''uk''" and domains = "[''a.com'', ''b.org'']" and country = None
         and w = example_world]
  by (simp add: getBatchKeywordOverview_def getKeywordDifficulty_def getTrafficSummary_def
        or_us_def ex_defs eval_defs)

text \<open>
  C10. An operation called with the limit 0 behaves in every respect as the same operation
  called without a limit, and no request it sends has a \<^verbatim>\<open>display_limit\<close> parameter. A limit
  other than 0 is sent as \<^verbatim>\<open>display_limit\<close>.
\<close>

theorem zero_limit_dropped:
  "(limit_of op = Some 0 \<longrightarrow>
      invoke env this op w = invoke env this (without_limit op) w
      \<and> (\<forall>res w'. invoke env this op w = Some (res, w') \<longrightarrow>
           (\<exists>new. sent w' = sent w @ new
              \<and> (\<forall>req\<in>set new. map_of (params req) ''display_limit'' = None))))
   \<and> (limit_of op = Some n \<and> n \<noteq> 0 \<longrightarrow>
      (\<forall>res w'. invoke env this op w = Some (res, w') \<longrightarrow>
           (\<exists>new. sent w' = sent w @ new
              \<and> (\<forall>req\<in>set new. map_of (params req) ''display_limit'' = Some (PNum n)))))"
  using zero_limit_same_call[of op env this w] limit_sent[of op 0 env this w]
    limit_sent[of op n env this w]
  by auto

theorem zero_limit_dropped_witness:
  "invoke (example_env (HttpReply \<lparr>r_data = JStr ''Ph'', r_status = 200, r_headers = []\<rparr>) 0)
       example_client (GetDomainOrganicKeywords ''example.com'' None (Some 0)) example_world
     = invoke (example_env (HttpReply \<lparr>r_data = JStr ''Ph'', r_status = 200, r_headers = []\<rparr>) 0)
       example_client (GetDomainOrganicKeywords ''example.com'' None None) example_world
   \<and> map_option (sent \<circ> snd)
       (invoke (example_env (HttpReply \<lparr>r_data = JStr ''Ph'', r_status = 200, r_headers = []\<rparr>) 0)
          example_client (GetDomainOrganicKeywords ''example.com'' None (Some 0)) example_world)
     = Some [\<lparr>http_method = ''get'', url = ''https://api.semrush.com/'',
              params = [(''type'', PStr ''domain_organic''), (''domain'', PStr ''example.com''),
                        (''database'', PStr ''us''),
                        (''export_columns'', PStr ''Ph,Po,Pp,Pd,Nq,Cp,Ur,Tr,Tc,Co,Nr,Td''),
                        (''key'', PStr ''K'')]\<rparr>]
   \<and> map_option (sent \<circ> snd)
       (invoke (example_env (HttpReply \<lparr>r_data = JStr ''Ph'', r_status = 200, r_headers = []\<rparr>) 0)
          example_client (GetDomainOrganicKeywords ''example.com'' None (Some 25)) example_world)
     = Some [\<lparr>http_method = ''get'', url = ''https://api.semrush.com/'',
              params = [(''type'', PStr ''domain_organic''), (''domain'', PStr ''example.com''),
                        (''database'', PStr ''us''),
                        (''export_columns'', PStr ''Ph,Po,Pp,Pd,Nq,Cp,Ur,Tr,Tc,Co,Nr,Td''),
                        (''display_limit'', PNum 25),
                        (''key'', PStr ''K'')]\<rparr>]"
  using zero_limit_dropped
    [where op = "GetDomainOrganicKeywords ''example.com'' None (Some 0)"
       and env = "example_env
          (HttpReply \<lparr>r_data = JStr ''Ph'', r_status = 200, r_headers = []\<rparr>) 0"
       and this = example_client and w = example_world and n = 25]
    zero_limit_dropped
    [where op = "GetDomainOrganicKeywords ''example.com'' None (Some 25)"
       and env = "example_env
          (HttpReply \<lparr>r_data = JStr ''Ph'', r_status = 200, r_headers = []\<rparr>) 0"
       and this = example_client and w = example_world and n = 25]
  by (simp add: getDomainOrganicKeywords_def with_display_limit_def or_us_def ex_defs eval_defs
         del: with_display_limit_zero)

end
